theory Spec2Isabelle
  imports Complex_Main "HOL-Library.Multiset" "HOL-Library.Product_Lexorder"
begin

section \<open>Sashimi-plot layout core of pysashimi\<close>

text \<open>
  The repository holds two generations of \<^verbatim>\<open>sashimi_plot_utils.py\<close>:
  \<^verbatim>\<open>src/utils\<close> and \<^verbatim>\<open>src/new_src\<close>. Where the two files differ the
  definitions carry the suffix \<open>_utils\<close> or \<open>_new\<close>; \<^verbatim>\<open>get_scaling\<close> and
  \<^verbatim>\<open>cubic_bezier\<close> are the same text in both and are embedded once.

  Python and numpy floating-point numbers are embedded as \<^typ>\<open>real\<close>. The rounding
  of the coordinate walk of \<^verbatim>\<open>get_scaling\<close>, a double accumulator stored into a
  single-precision array, is a parameter of the embedding; the arithmetic of the drawing
  code is exact. Every \<^verbatim>\<open>raise\<close> the embedded code can reach is a value
  \<open>Inl e\<close> of the result.
\<close>

subsection \<open>Python values and errors\<close>

datatype py_error = IndexError | KeyError | ValueError | ZeroDivisionError

text \<open>
  The \<^verbatim>\<open>strand\<close> argument of \<^verbatim>\<open>get_scaling\<close> is untyped in the source. One caller
  hands it a string, the other an integer, so the argument is a small sum of both.
\<close>

datatype py_value = PyStr string | PyInt int

text \<open>\<^verbatim>\<open>int(x)\<close> on a float truncates towards zero.\<close>

definition py_int :: "real \<Rightarrow> int" where
  "py_int x = (if 0 \<le> x then \<lfloor>x\<rfloor> else \<lceil>x\<rceil>)"

text \<open>\<^verbatim>\<open>a / b\<close> on numbers raises \<^verbatim>\<open>ZeroDivisionError\<close> for a zero divisor.\<close>

definition py_true_div :: "real \<Rightarrow> real \<Rightarrow> py_error + real" where
  "py_true_div a b = (if b = 0 then Inl ZeroDivisionError else Inr (a / b))"

text \<open>
  \<^verbatim>\<open>xs[i]\<close>: a negative index counts from the end, and an index outside the
  sequence raises \<^verbatim>\<open>IndexError\<close>.
\<close>

definition py_index :: "'a list \<Rightarrow> int \<Rightarrow> py_error + 'a" where
  "py_index xs i =
     (let n = int (length xs); j = (if i < 0 then i + n else i)
      in if 0 \<le> j \<and> j < n then Inr (xs ! nat j) else Inl IndexError)"

text \<open>
  The bounds of a slice \<^verbatim>\<open>xs[a:b]\<close> on a sequence of length \<open>n\<close>: a negative bound
  counts from the end, and the result is clipped to \<open>[0, n]\<close>.
\<close>

definition slice_bound :: "int \<Rightarrow> int \<Rightarrow> nat" where
  "slice_bound n k =
     (let k' = (if k < 0 then k + n else k)
      in if k' < 0 then 0 else if n < k' then nat n else nat k')"

text \<open>\<^verbatim>\<open>xs[a:b] = v\<close> on a numpy array: every slot of the slice receives \<open>v\<close>.\<close>

definition slice_assign :: "'a list \<Rightarrow> int \<Rightarrow> int \<Rightarrow> 'a \<Rightarrow> 'a list" where
  "slice_assign xs a b v =
     (let n = int (length xs); lo = slice_bound n a; hi = slice_bound n b
      in map (\<lambda>(i, y). if lo \<le> i \<and> i < hi then v else y) (zip [0..<length xs] xs))"

subsection \<open>Python dicts\<close>

text \<open>
  A dict is an association list in insertion order. \<^verbatim>\<open>d[k]\<close> raises
  \<^verbatim>\<open>KeyError\<close> for a missing key; \<^verbatim>\<open>d[k] = v\<close> replaces the value of a key the
  dict has, where it stands, and appends a new key.
\<close>

definition dict_get :: "('k \<times> 'v) list \<Rightarrow> 'k \<Rightarrow> py_error + 'v" where
  "dict_get d k = (case map_of d k of None \<Rightarrow> Inl KeyError | Some v \<Rightarrow> Inr v)"

fun dict_set :: "('k \<times> 'v) list \<Rightarrow> 'k \<Rightarrow> 'v \<Rightarrow> ('k \<times> 'v) list" where
  "dict_set [] k v = [(k, v)]"
| "dict_set (kv # d) k v = (if fst kv = k then (k, v) # d else kv # dict_set d k v)"

subsection \<open>Floating point\<close>

text \<open>
  The running coordinate \<^verbatim>\<open>x\<close> of \<^verbatim>\<open>get_scaling\<close> is a double and the array
  \<^verbatim>\<open>graph_coords\<close> has \<^verbatim>\<open>dtype='f'\<close>, single precision. The walk is embedded over
  two rounding functions: \<open>rnd64\<close> rounds the exact result of a double operation to
  a double, \<open>rnd32\<close> rounds a double to the single that the array stores. Nothing is
  assumed of them in the definitions; the statements name what they use. \<open>no_rounding\<close>
  is exact arithmetic, which agrees with the code wherever every number that occurs has
  an exact double and single.
\<close>

record rounding =
  rnd64 :: "real \<Rightarrow> real"
  rnd32 :: "real \<Rightarrow> real"

definition no_rounding :: rounding where
  "no_rounding = \<lparr>rnd64 = (\<lambda>x. x), rnd32 = (\<lambda>x. x)\<rparr>"

subsection \<open>\<^verbatim>\<open>get_scaling\<close>\<close>

text \<open>
  The first loop of \<^verbatim>\<open>get_scaling\<close> marks the exonic offsets:
  \<^verbatim>\<open>for i in range(len(exon_starts)):
      exon_coords[exon_starts[i] - tx_start: exon_ends[i] - tx_start] = 1\<close>
  \<^verbatim>\<open>exon_ends[i]\<close> raises when \<^verbatim>\<open>exon_ends\<close> is the shorter list.
\<close>

fun mark_exons :: "int \<Rightarrow> int list \<Rightarrow> int list \<Rightarrow> real list \<Rightarrow> py_error + real list" where
  "mark_exons tx_start [] exon_ends exon_coords = Inr exon_coords"
| "mark_exons tx_start (s # exon_starts) [] exon_coords = Inl IndexError"
| "mark_exons tx_start (s # exon_starts) (e # exon_ends) exon_coords =
     mark_exons tx_start exon_starts exon_ends
       (slice_assign exon_coords (s - tx_start) (e - tx_start) 1)"

text \<open>
  The increment of the running coordinate at array slot \<open>j\<close>, the rounded quotient:
  \<^verbatim>\<open>if exon_coords[j] == 1: x += 1. / exon_scale
  else: x += 1. / intron_scale\<close>
\<close>

definition scale_step :: "rounding \<Rightarrow> real list \<Rightarrow> real \<Rightarrow> real \<Rightarrow> nat \<Rightarrow> py_error + real" where
  "scale_step r exon_coords intron_scale exon_scale j =
     (case (if exon_coords ! j = 1 then py_true_div 1 exon_scale
            else py_true_div 1 intron_scale) of
        Inl e \<Rightarrow> Inl e
      | Inr q \<Rightarrow> Inr (rnd64 r q))"

text \<open>
  The two walking loops of \<^verbatim>\<open>get_scaling\<close> have the same body up to the slot they
  write and the genomic coordinate they record. \<open>slot\<close> is \<open>i\<close> in the first loop and
  \<open>n - 1 - i\<close> (Python's \<^verbatim>\<open>-(i + 1)\<close>) in the second; \<open>gene\<close> is
  \<^verbatim>\<open>i + tx_start\<close> and \<^verbatim>\<open>tx_end - i + 1\<close>. The state is
  \<^verbatim>\<open>(graph_coords, graph_to_gene, x)\<close>: the array receives the single nearest to
  \<^verbatim>\<open>x\<close>, the dict is keyed by \<^verbatim>\<open>int(x)\<close> of the double, and \<^verbatim>\<open>x\<close> advances by
  a rounded addition.
\<close>

type_synonym scaling_state = "real list \<times> (int \<times> int) list \<times> real"

fun scaling_walk ::
  "rounding \<Rightarrow> (nat \<Rightarrow> nat) \<Rightarrow> (nat \<Rightarrow> int) \<Rightarrow> real list \<Rightarrow> real \<Rightarrow> real \<Rightarrow> nat list
     \<Rightarrow> scaling_state \<Rightarrow> py_error + scaling_state" where
  "scaling_walk r slot gene exon_coords intron_scale exon_scale [] st = Inr st"
| "scaling_walk r slot gene exon_coords intron_scale exon_scale (i # rest)
       (graph_coords, graph_to_gene, x) =
     (case scale_step r exon_coords intron_scale exon_scale (slot i) of
        Inl e \<Rightarrow> Inl e
      | Inr d \<Rightarrow>
          scaling_walk r slot gene exon_coords intron_scale exon_scale rest
            (graph_coords[slot i := rnd32 r x], dict_set graph_to_gene (py_int x) (gene i),
             rnd64 r (x + d)))"

text \<open>The test \<^verbatim>\<open>strand == '+' or not reverse_minus\<close> selecting the first loop.\<close>

definition fills_forward :: "py_value \<Rightarrow> bool \<Rightarrow> bool" where
  "fills_forward strand reverse_minus \<longleftrightarrow> strand = PyStr ''+'' \<or> \<not> reverse_minus"

text \<open>
  \<^verbatim>\<open>pylab.zeros\<close> raises \<^verbatim>\<open>ValueError\<close> for a negative dimension. The function
  returns \<^verbatim>\<open>(graph_coords, graph_to_gene)\<close>. The first argument is the rounding;
  \<open>get_scaling no_rounding\<close> is the function in exact arithmetic.
\<close>

definition get_scaling ::
  "rounding \<Rightarrow> int \<Rightarrow> int \<Rightarrow> py_value \<Rightarrow> int list \<Rightarrow> int list \<Rightarrow> real \<Rightarrow> real \<Rightarrow> bool
     \<Rightarrow> py_error + (real list \<times> (int \<times> int) list)" where
  "get_scaling r tx_start tx_end strand exon_starts exon_ends intron_scale exon_scale
       reverse_minus =
     (if tx_end - tx_start + 1 < 0 then Inl ValueError
      else
        let n = nat (tx_end - tx_start + 1) in
        case mark_exons tx_start exon_starts exon_ends (replicate n 0) of
          Inl e \<Rightarrow> Inl e
        | Inr exon_coords \<Rightarrow>
            (case (if fills_forward strand reverse_minus
                   then scaling_walk r (\<lambda>i. i) (\<lambda>i. int i + tx_start)
                          exon_coords intron_scale exon_scale [0..<n] (replicate n 0, [], 0)
                   else scaling_walk r (\<lambda>i. n - 1 - i) (\<lambda>i. tx_end - int i + 1)
                          exon_coords intron_scale exon_scale [0..<n] (replicate n 0, [], 0))
             of Inl e \<Rightarrow> Inl e
              | Inr (graph_coords, graph_to_gene, x) \<Rightarrow> Inr (graph_coords, graph_to_gene)))"





text \<open>
  The exonic offsets in the words of the specification: an offset of the region is
  exonic when an exon interval covers it. An interval holds its start and not its end, as
  the slice of the source has it. \<open>spec_step\<close> is the increment that the
  specification gives an offset, \<open>1 / exon_scale\<close> when it is exonic and
  \<open>1 / intron_scale\<close> otherwise.
\<close>

definition exonic :: "int \<Rightarrow> int list \<Rightarrow> int list \<Rightarrow> nat \<Rightarrow> bool" where
  "exonic tx_start exon_starts exon_ends j \<longleftrightarrow>
     list_ex (\<lambda>se. fst se - tx_start \<le> int j \<and> int j < snd se - tx_start)
       (zip exon_starts exon_ends)"


subsection \<open>Sequencing of fallible steps\<close>

definition py_bind :: "py_error + 'a \<Rightarrow> ('a \<Rightarrow> py_error + 'b) \<Rightarrow> py_error + 'b" where
  "py_bind r f = (case r of Inl e \<Rightarrow> Inl e | Inr v \<Rightarrow> f v)"

text \<open>\<^verbatim>\<open>max(xs)\<close> and \<^verbatim>\<open>min(xs)\<close> raise \<^verbatim>\<open>ValueError\<close> on an empty sequence.\<close>

definition py_max :: "real list \<Rightarrow> py_error + real" where
  "py_max xs = (case xs of [] \<Rightarrow> Inl ValueError | y # ys \<Rightarrow> Inr (fold max ys y))"

definition py_min :: "real list \<Rightarrow> py_error + real" where
  "py_min xs = (case xs of [] \<Rightarrow> Inl ValueError | y # ys \<Rightarrow> Inr (fold min ys y))"

text \<open>\<^verbatim>\<open>a % b\<close> on floats with a positive divisor: the remainder of floor division.\<close>

definition py_mod :: "real \<Rightarrow> real \<Rightarrow> real" where
  "py_mod a b = a - b * of_int \<lfloor>a / b\<rfloor>"

text \<open>
  \<^verbatim>\<open>linspace(start, stop, num)\<close>: \<^verbatim>\<open>num\<close> evenly spaced values from \<^verbatim>\<open>start\<close>
  to \<^verbatim>\<open>stop\<close>, the one value \<^verbatim>\<open>start\<close> for \<^verbatim>\<open>num = 1\<close>, and
  \<^verbatim>\<open>ValueError\<close> for a negative \<^verbatim>\<open>num\<close>.
\<close>

definition linspace :: "real \<Rightarrow> real \<Rightarrow> int \<Rightarrow> py_error + real list" where
  "linspace start stop num =
     (if num < 0 then Inl ValueError
      else if num = 1 then Inr [start]
      else Inr (map (\<lambda>k. start + real k * ((stop - start) / real_of_int (num - 1)))
                  [0..<nat num]))"

subsection \<open>Data handed in by the readers\<close>

text \<open>
  The classes \<^verbatim>\<open>Junction\<close>, \<^verbatim>\<open>ReadDepth\<close> and \<^verbatim>\<open>SpliceRegion\<close> are declared
  outside the embedded files; the records hold the attributes the plotting code reads.
  A \<^verbatim>\<open>junctions_dict\<close> is a Python dict, embedded as an association list in
  insertion order. The sample labels and colours that key \<^verbatim>\<open>read_depths_dict\<close> play no
  part in the geometry, so that dict is the list of its values in dict order.
\<close>

record junction =
  jxn_start :: int
  jxn_end :: int

record read_depth =
  rd_start :: int
  rd_wiggle :: "real list"
  rd_junctions_dict :: "(junction \<times> real) list"
  rd_max :: real

record splice_region =
  sr_start :: int
  sr_end :: int
  sr_strand :: string
  sr_exon_starts :: "int list"
  sr_exon_ends :: "int list"

record settings =
  s_intron_scale :: real
  s_exon_scale :: real
  s_reverse_minus :: bool
  s_resolution :: real
  s_nxticks :: int

subsection \<open>The drawn scene\<close>

text \<open>
  The drawing calls are embedded as the values they are given: the depth glyph
  (\<^verbatim>\<open>fill_between\<close>, or the white point drawn when there is no alignment file), and per
  junction the four control points of the \<^verbatim>\<open>Path\<close>, the label anchor and the
  \<^verbatim>\<open>lw\<close> of the \<^verbatim>\<open>PathPatch\<close>; the positions and labels handed to
  \<^verbatim>\<open>xticks\<close> (both empty when the x axis is not shown) and the upper value handed to
  \<^verbatim>\<open>xlim\<close>. The texts, the y tick labels, the indicator lines and the transcript
  rows are not embedded.
\<close>

type_synonym point = "real \<times> real"

datatype depth_glyph = Fill_between "real list" "real list" | White_point point

record arc =
  arc_pts :: "point list"
  arc_midpt :: point
  arc_lw :: real

record panel =
  p_glyph :: depth_glyph
  p_arcs :: "arc list"
  p_xticks :: "real list \<times> int list"
  p_xlim :: real

record axis_panel =
  ap_panel :: panel
  ap_ybound_lower :: real
  ap_ybound_upper :: real
  ap_axis_upper :: real

subsection \<open>\<^verbatim>\<open>cubic_bezier\<close>\<close>

definition pt_scale :: "real \<Rightarrow> point \<Rightarrow> point" where
  "pt_scale c p = (c * fst p, c * snd p)"

definition pt_add :: "point \<Rightarrow> point \<Rightarrow> point" where
  "pt_add p q = (fst p + fst q, snd p + snd q)"

text \<open>The unpacking \<^verbatim>\<open>p0, p1, p2, p3 = pts\<close> raises unless there are four points.\<close>

definition cubic_bezier :: "point list \<Rightarrow> real \<Rightarrow> py_error + point" where
  "cubic_bezier pts t =
     (case pts of
        [p0, p1, p2, p3] \<Rightarrow>
          Inr (pt_add (pt_add (pt_add (pt_scale ((1 - t) ^ 3) p0)
                                      (pt_scale (3 * t * (1 - t) ^ 2) p1))
                              (pt_scale (3 * t ^ 2 * (1 - t)) p2))
                      (pt_scale (t ^ 3) p3))
      | _ \<Rightarrow> Inl ValueError)"

subsection \<open>\<^verbatim>\<open>__get_limited_index__\<close>\<close>

text \<open>
  The version of \<^verbatim>\<open>src/utils\<close> returns the index and whether it was changed, the
  version of \<^verbatim>\<open>src/new_src\<close> the index alone.
\<close>

definition get_limited_index_utils :: "int \<Rightarrow> int \<Rightarrow> int \<times> bool" where
  "get_limited_index_utils num len =
     (if num < 0 then (0, True)
      else if num \<ge> len then (len - 1, True)
      else (num, False))"

definition get_limited_index_new :: "int \<Rightarrow> int \<Rightarrow> int" where
  "get_limited_index_new num len =
     (if num < 0 then 0
      else if num \<ge> len then len - 1
      else num)"


subsection \<open>Loops over a sequence\<close>

text \<open>
  A \<^verbatim>\<open>for\<close> loop whose body produces one drawn element per item and may raise: the
  items are visited in order and the first error ends the loop.
\<close>

fun py_for :: "('a \<Rightarrow> py_error + 'b) \<Rightarrow> 'a list \<Rightarrow> py_error + 'b list" where
  "py_for body [] = Inr []"
| "py_for body (y # ys) =
     (case body y of
        Inl e \<Rightarrow> Inl e
      | Inr v \<Rightarrow> (case py_for body ys of Inl e \<Rightarrow> Inl e | Inr vs \<Rightarrow> Inr (v # vs)))"

text \<open>
  \<^verbatim>\<open>sorted(xs, key=key, reverse=True)\<close>: CPython reverses the list, sorts it stably
  in ascending key order and reverses the result, so equal keys keep their order.
\<close>

definition py_sorted_reverse :: "('a \<Rightarrow> int) \<Rightarrow> 'a list \<Rightarrow> 'a list" where
  "py_sorted_reverse key xs = rev (sort_key key (rev xs))"

subsection \<open>The x axis of a panel\<close>

text \<open>
  The end of \<^verbatim>\<open>plot_density_single\<close>, the same in both versions:
  \<^verbatim>\<open>if show_x_axis:
      max_graph_coords = max(graph_coords) - 1
      pylab.xticks(pylab.linspace(0, max_graph_coords, nx_ticks),
                   [graph_to_gene[int(x)] for x in pylab.linspace(0, max_graph_coords, nx_ticks)])
  else:
      pylab.xticks([])
  pylab.xlim(0, max(graph_coords))\<close>
  \<^verbatim>\<open>max\<close> raises on an empty array, and the lookup raises \<^verbatim>\<open>KeyError\<close> when no
  offset was recorded under the integer part of a tick. The result is the pair of the
  ticks with their labels and of the upper x limit.
\<close>

definition x_axis ::
  "real list \<Rightarrow> (int \<times> int) list \<Rightarrow> bool \<Rightarrow> int
     \<Rightarrow> py_error + ((real list \<times> int list) \<times> real)" where
  "x_axis graph_coords graph_to_gene show_x_axis nx_ticks =
     py_bind
       (if show_x_axis then
          py_bind (py_max graph_coords) (\<lambda>m.
          py_bind (linspace 0 (m - 1) nx_ticks) (\<lambda>ticks.
          py_bind (py_for (\<lambda>x. dict_get graph_to_gene (py_int x)) ticks) (\<lambda>labels.
            Inr (ticks, labels))))
        else Inr ([], []))
       (\<lambda>xticks. py_bind (py_max graph_coords) (\<lambda>m. Inr (xticks, m)))"

subsection \<open>\<^verbatim>\<open>plot_density_single\<close> of \<^verbatim>\<open>src/utils\<close>\<close>

text \<open>
  The depth loop of \<^verbatim>\<open>src/utils\<close> copies every sample:
  \<^verbatim>\<open>for i in range(len(graph_coords)):
      compressed_wiggle.append(wiggle[i])
      compressed_x.append(graph_coords[i])\<close>
\<close>

fun copy_samples_utils ::
  "real list \<Rightarrow> real list \<Rightarrow> nat list \<Rightarrow> real list \<times> real list
     \<Rightarrow> py_error + real list \<times> real list" where
  "copy_samples_utils graph_coords wiggle [] acc = Inr acc"
| "copy_samples_utils graph_coords wiggle (i # rest) (compressed_x, compressed_wiggle) =
     (case py_index wiggle (int i) of
        Inl e \<Rightarrow> Inl e
      | Inr w \<Rightarrow>
          (case py_index graph_coords (int i) of
             Inl e \<Rightarrow> Inl e
           | Inr g \<Rightarrow>
               copy_samples_utils graph_coords wiggle rest
                 (compressed_x @ [g], compressed_wiggle @ [w])))"

definition compress_utils :: "real list \<Rightarrow> real list \<Rightarrow> py_error + real list \<times> real list" where
  "compress_utils graph_coords wiggle =
     copy_samples_utils graph_coords wiggle [0..<length graph_coords] ([], [])"


definition jxns_sorted_list_utils :: "(junction \<times> real) list \<Rightarrow> junction list" where
  "jxns_sorted_list_utils jxns = py_sorted_reverse (\<lambda>x. jxn_end x - jxn_start x) (map fst jxns)"

text \<open>
  \<^verbatim>\<open>if not jxns: max_junction_count, min_junction_count = 0, 0
  else: max_junction_count = max(jxns.values()); min_junction_count = min(jxns.values())\<close>
\<close>

definition junction_count_bounds :: "(junction \<times> real) list \<Rightarrow> real \<times> real" where
  "junction_count_bounds jxns =
     (case map snd jxns of
        [] \<Rightarrow> (0, 0)
      | v # vs \<Rightarrow> (fold max vs v, fold min vs v))"

text \<open>The two index computations at the head of the junction loop.\<close>

definition resolve_endpoints_utils ::
  "int \<Rightarrow> real list \<Rightarrow> junction \<Rightarrow> (int \<times> bool) \<times> (int \<times> bool)" where
  "resolve_endpoints_utils tx_start graph_coords jxn =
     (let leftss = jxn_start jxn; rightss = jxn_end jxn
      in (get_limited_index_utils (leftss - tx_start - 1) (int (length graph_coords)),
          get_limited_index_utils (rightss - tx_start) (int (length graph_coords))))"

text \<open>
  \<^verbatim>\<open>if junction_count_gap > 0:
      line_width = (jxns[jxn] - min_junction_count) / junction_count_gap
  else: line_width = 0\<close>
\<close>

definition line_width_utils :: "real \<Rightarrow> real \<Rightarrow> real \<Rightarrow> real" where
  "line_width_utils jxn_count min_junction_count junction_count_gap =
     (if junction_count_gap > 0 then (jxn_count - min_junction_count) / junction_count_gap else 0)"

text \<open>
  The body of the junction loop for the junction \<open>jxn\<close> at position \<open>plotted_count\<close> of
  the sorted list. The stroke is drawn with \<^verbatim>\<open>lw=line_width + 0.2\<close>.
\<close>

definition junction_arc_utils ::
  "real list \<Rightarrow> real list \<Rightarrow> int \<Rightarrow> real \<Rightarrow> bool \<Rightarrow> (junction \<times> real) list \<Rightarrow> real \<Rightarrow> real
     \<Rightarrow> nat \<times> junction \<Rightarrow> py_error + arc" where
  "junction_arc_utils wiggle graph_coords tx_start current_height no_bam jxns
       min_junction_count junction_count_gap item =
     (let plotted_count = fst item; jxn = snd item;
          ends = resolve_endpoints_utils tx_start graph_coords jxn;
          ss1_idx = fst (fst ends); ss1_modified = snd (fst ends);
          ss2_idx = fst (snd ends); ss2_modified = snd (snd ends)
      in py_bind (py_index graph_coords ss1_idx) (\<lambda>ss1.
         py_bind (py_index graph_coords ss2_idx) (\<lambda>ss2.
         py_bind
           (if plotted_count mod 2 = 0 then
              Inr [(ss1, if \<not> ss1_modified then 0 else - current_height),
                   (ss1, - current_height),
                   (ss2, - current_height),
                   (ss2, if \<not> ss2_modified then 0 else - current_height)]
            else
              py_bind (py_index wiggle ss1_idx) (\<lambda>left_dens0.
              py_bind (py_index wiggle ss2_idx) (\<lambda>right_dens0.
                let left_dens = (if no_bam then left_dens0 / 2 else left_dens0);
                    right_dens = (if no_bam then right_dens0 / 2 else right_dens0)
                in Inr [(ss1, if \<not> ss1_modified then left_dens else left_dens + current_height),
                        (ss1, left_dens + current_height),
                        (ss2, right_dens + current_height),
                        (ss2, if \<not> ss2_modified then right_dens
                              else right_dens + current_height)])))
           (\<lambda>pts.
         py_bind (cubic_bezier pts (1 / 2)) (\<lambda>midpt.
         py_bind (dict_get jxns jxn) (\<lambda>jxn_count.
           Inr \<lparr>arc_pts = pts, arc_midpt = midpt,
                arc_lw = line_width_utils jxn_count min_junction_count junction_count_gap + 2 / 10\<rparr>))))))"

text \<open>
  The function. \<^verbatim>\<open>y_max\<close> is \<open>None\<close> when the caller leaves the default. With
  \<^verbatim>\<open>no_bam\<close> the white point is drawn at \<^verbatim>\<open>(0, max(compressed_wiggle) * 2)\<close>.
\<close>

definition plot_density_single_utils ::
  "read_depth \<Rightarrow> real list \<Rightarrow> (int \<times> int) list \<Rightarrow> real option \<Rightarrow> bool \<Rightarrow> int \<Rightarrow> bool
     \<Rightarrow> py_error + panel" where
  "plot_density_single_utils read_depth_object graph_coords graph_to_gene y_max_arg
       show_x_axis nx_ticks no_bam =
     (let tx_start = rd_start read_depth_object;
          wiggle = rd_wiggle read_depth_object;
          jxns = rd_junctions_dict read_depth_object;
          max_height = rd_max read_depth_object;
          y_max = (case y_max_arg of None \<Rightarrow> 11 / 10 * max_height | Some y \<Rightarrow> y);
          y_min = - (5 / 10) * y_max
      in py_bind (compress_utils graph_coords wiggle) (\<lambda>compressed.
         py_bind
           (if no_bam then py_bind (py_max (snd compressed)) (\<lambda>m. Inr (White_point (0, m * 2)))
            else Inr (Fill_between (fst compressed) (snd compressed)))
           (\<lambda>glyph.
         let jxns_sorted_list = jxns_sorted_list_utils jxns;
             max_junction_count = fst (junction_count_bounds jxns);
             min_junction_count = snd (junction_count_bounds jxns);
             junction_count_gap = max_junction_count - min_junction_count;
             current_height = - 3 * y_min / 4
         in py_bind
              (py_for (junction_arc_utils wiggle graph_coords tx_start current_height no_bam jxns
                         min_junction_count junction_count_gap)
                      (enumerate 0 jxns_sorted_list))
              (\<lambda>arcs.
            py_bind (x_axis graph_coords graph_to_gene show_x_axis nx_ticks) (\<lambda>axis.
              Inr \<lparr>p_glyph = glyph, p_arcs = arcs, p_xticks = fst axis, p_xlim = snd axis\<rparr>)))))"


subsection \<open>\<^verbatim>\<open>plot_density_single\<close> of \<^verbatim>\<open>src/new_src\<close>\<close>

text \<open>
  The depth loop of \<^verbatim>\<open>src/new_src\<close>, on the state
  \<^verbatim>\<open>(compressed_x, compressed_wiggle, prevx, tmpval)\<close>:
  \<^verbatim>\<open>for i in range(len(graphcoords)):
      tmpval.append(wiggle[i])
      if abs(graphcoords[i] - prevx) > resolution:
          compressed_wiggle.append(sum(tmpval) / len(tmpval))
          compressed_x.append(prevx)
          prevx = graphcoords[i]
          tmpval = []\<close>
\<close>

type_synonym compress_state = "real list \<times> real list \<times> real \<times> real list"

fun compress_loop_new ::
  "real list \<Rightarrow> real list \<Rightarrow> real \<Rightarrow> nat list \<Rightarrow> compress_state \<Rightarrow> py_error + compress_state" where
  "compress_loop_new graphcoords wiggle resolution [] st = Inr st"
| "compress_loop_new graphcoords wiggle resolution (i # rest)
       (compressed_x, compressed_wiggle, prevx, tmpval) =
     (case py_index wiggle (int i) of
        Inl e \<Rightarrow> Inl e
      | Inr w \<Rightarrow>
          (case py_index graphcoords (int i) of
             Inl e \<Rightarrow> Inl e
           | Inr g \<Rightarrow>
               if \<bar>g - prevx\<bar> > resolution then
                 (case py_true_div (sum_list (tmpval @ [w])) (real (length (tmpval @ [w]))) of
                    Inl e \<Rightarrow> Inl e
                  | Inr mean \<Rightarrow>
                      compress_loop_new graphcoords wiggle resolution rest
                        (compressed_x @ [prevx], compressed_wiggle @ [mean], g, []))
               else
                 compress_loop_new graphcoords wiggle resolution rest
                   (compressed_x, compressed_wiggle, prevx, tmpval @ [w])))"

text \<open>
  \<^verbatim>\<open>prevx = graphcoords[0]\<close> precedes the loop; what reaches \<^verbatim>\<open>fill_between\<close> is
  \<^verbatim>\<open>(compressed_x, compressed_wiggle)\<close>, the last \<^verbatim>\<open>prevx\<close> and \<^verbatim>\<open>tmpval\<close> are
  dropped.
\<close>

definition compress_new :: "real list \<Rightarrow> real list \<Rightarrow> real \<Rightarrow> py_error + real list \<times> real list" where
  "compress_new graphcoords wiggle resolution =
     py_bind (py_index graphcoords 0) (\<lambda>prevx.
     py_bind (compress_loop_new graphcoords wiggle resolution [0..<length graphcoords]
                ([], [], prevx, []))
       (\<lambda>st. Inr (fst st, fst (snd st))))"

text \<open>
  The body of the junction loop of \<^verbatim>\<open>src/new_src\<close>. The stroke is drawn with the
  constant \<^verbatim>\<open>lw=0.5\<close>.
\<close>

definition junction_arc_new ::
  "real list \<Rightarrow> real list \<Rightarrow> int \<Rightarrow> real \<Rightarrow> nat \<times> junction \<Rightarrow> py_error + arc" where
  "junction_arc_new wiggle graphcoords tx_start current_height item =
     (let plotted_count = fst item; jxn = snd item;
          leftss = jxn_start jxn; rightss = jxn_end jxn
      in py_bind (py_index graphcoords
                    (get_limited_index_new (leftss - tx_start - 1) (int (length graphcoords)))) (\<lambda>ss1.
         py_bind (py_index graphcoords
                    (get_limited_index_new (rightss - tx_start) (int (length graphcoords)))) (\<lambda>ss2.
         py_bind
           (if plotted_count mod 2 = 1 then
              Inr [(ss1, 0), (ss1, - current_height), (ss2, - current_height), (ss2, 0)]
            else
              py_bind (py_index wiggle
                         (get_limited_index_new (leftss - tx_start - 1) (int (length wiggle)))) (\<lambda>leftdens.
              py_bind (py_index wiggle
                         (get_limited_index_new (rightss - tx_start) (int (length wiggle)))) (\<lambda>rightdens.
                Inr [(ss1, leftdens), (ss1, leftdens + current_height),
                     (ss2, rightdens + current_height), (ss2, rightdens)])))
           (\<lambda>pts.
         py_bind (cubic_bezier pts (5 / 10)) (\<lambda>midpt.
           Inr \<lparr>arc_pts = pts, arc_midpt = midpt, arc_lw = 5 / 10\<rparr>)))))"

text \<open>
  \<^verbatim>\<open>jxns_sorted_list = sorted(jxns.keys())\<close> orders the junctions by the comparison
  methods of the \<^verbatim>\<open>Junction\<close> class, which is declared outside the embedded files:
  the sorting is the parameter \<open>sorted_keys\<close>. \<^verbatim>\<open>max(wiggle)\<close> raises on an empty
  depth array.
\<close>

definition plot_density_single_new ::
  "(junction list \<Rightarrow> junction list) \<Rightarrow> read_depth \<Rightarrow> real list \<Rightarrow> (int \<times> int) list
     \<Rightarrow> real option \<Rightarrow> real \<Rightarrow> bool \<Rightarrow> int \<Rightarrow> py_error + panel" where
  "plot_density_single_new sorted_keys read_depth_object graphcoords graphToGene ymax_arg
       resolution showXaxis nxticks =
     (let tx_start = rd_start read_depth_object;
          wiggle = rd_wiggle read_depth_object;
          jxns = rd_junctions_dict read_depth_object
      in py_bind (py_max wiggle) (\<lambda>maxheight.
         let ymax = (case ymax_arg of None \<Rightarrow> 11 / 10 * maxheight | Some y \<Rightarrow> y);
             ymin = - (5 / 10) * ymax
         in py_bind (compress_new graphcoords wiggle resolution) (\<lambda>compressed.
            let jxns_sorted_list = sorted_keys (map fst jxns);
                current_height = - 3 * ymin / 4
            in py_bind
                 (py_for (junction_arc_new wiggle graphcoords tx_start current_height)
                         (enumerate 0 jxns_sorted_list))
                 (\<lambda>arcs.
               py_bind (x_axis graphcoords graphToGene showXaxis nxticks) (\<lambda>axis.
                 Inr \<lparr>p_glyph = Fill_between (fst compressed) (snd compressed),
                      p_arcs = arcs, p_xticks = fst axis, p_xlim = snd axis\<rparr>)))))"

subsection \<open>\<^verbatim>\<open>plot_density\<close> of \<^verbatim>\<open>src/utils\<close>\<close>

text \<open>
  The scaling call of \<^verbatim>\<open>src/utils\<close>, with \<^verbatim>\<open>strand = splice_region.strand\<close>.
\<close>

definition plot_density_scaling_utils ::
  "rounding \<Rightarrow> settings \<Rightarrow> splice_region \<Rightarrow> py_error + (real list \<times> (int \<times> int) list)" where
  "plot_density_scaling_utils r settings splice_region =
     (let intron_scale = s_intron_scale settings;
          exon_scale = s_exon_scale settings;
          reverse_minus = s_reverse_minus settings;
          exon_starts = sr_exon_starts splice_region;
          exon_ends = sr_exon_ends splice_region;
          tx_start = sr_start splice_region;
          tx_end = sr_end splice_region;
          strand = PyStr (sr_strand splice_region)
      in get_scaling r tx_start tx_end strand exon_starts exon_ends intron_scale exon_scale
           reverse_minus)"


text \<open>
  The y axis of one panel in \<^verbatim>\<open>src/utils\<close>, from the panel's own maximum
  \<^verbatim>\<open>average_read_depth.max\<close>:
  \<^verbatim>\<open>max_used_y_val = average_read_depth.max
  fake_y_min = - 0.5 * max_used_y_val
  if max_used_y_val % 2 == 1: max_used_y_val += 1\<close>
  The result is \<^verbatim>\<open>(fake_y_min, max_used_y_val)\<close>.
\<close>

definition panel_axis_utils :: "real \<Rightarrow> real \<times> real" where
  "panel_axis_utils panel_max =
     (let fake_y_min = - (5 / 10) * panel_max
      in (fake_y_min, if py_mod panel_max 2 = 1 then panel_max + 1 else panel_max))"

text \<open>
  One iteration of the panel loop of \<^verbatim>\<open>src/utils\<close>, for the sample at position
  \<open>i\<close> of \<open>n_samples\<close>: the x axis is shown on the last panel,
  \<^verbatim>\<open>show_x_axis = (i == len(read_depths_dict) - 1)\<close>; the panel is drawn with
  \<^verbatim>\<open>y_max=max_used_y_val\<close>, then
  \<^verbatim>\<open>set_ybound(lower=fake_y_min, upper=1.2 * max_used_y_val)\<close> and
  \<^verbatim>\<open>spines["left"].set_bounds(0, max_used_y_val)\<close>.
\<close>

definition draw_panel_utils ::
  "real list \<Rightarrow> (int \<times> int) list \<Rightarrow> int \<Rightarrow> bool \<Rightarrow> nat \<Rightarrow> nat \<times> read_depth
     \<Rightarrow> py_error + axis_panel" where
  "draw_panel_utils graph_coords graph_to_gene nxticks no_bam n_samples item =
     (let i = fst item; average_read_depth = snd item;
          show_x_axis = (int i = int n_samples - 1);
          axis = panel_axis_utils (rd_max average_read_depth);
          fake_y_min = fst axis; max_used_y_val = snd axis
      in py_bind (plot_density_single_utils average_read_depth graph_coords graph_to_gene
                    (Some max_used_y_val) show_x_axis nxticks no_bam)
           (\<lambda>p. Inr \<lparr>ap_panel = p, ap_ybound_lower = fake_y_min,
                      ap_ybound_upper = 12 / 10 * max_used_y_val,
                      ap_axis_upper = max_used_y_val\<rparr>))"

text \<open>
  \<^verbatim>\<open>plot_density\<close> of \<^verbatim>\<open>src/utils\<close> up to the end of the panel loop. The
  \<^verbatim>\<open>max\<close> over the sample aliases raises when there is no sample.
\<close>

definition plot_density_utils ::
  "rounding \<Rightarrow> settings \<Rightarrow> read_depth list \<Rightarrow> splice_region \<Rightarrow> bool
     \<Rightarrow> py_error + (real list \<times> axis_panel list)" where
  "plot_density_utils r settings read_depths_dict splice_region no_bam =
     py_bind (plot_density_scaling_utils r settings splice_region) (\<lambda>scaling.
       if read_depths_dict = [] then Inl ValueError
       else py_bind (py_for (draw_panel_utils (fst scaling) (snd scaling) (s_nxticks settings)
                               no_bam (length read_depths_dict))
                            (enumerate 0 read_depths_dict))
              (\<lambda>panels. Inr (fst scaling, panels)))"

subsection \<open>\<^verbatim>\<open>plot_density\<close> of \<^verbatim>\<open>src/new_src\<close>\<close>

text \<open>
  The scaling call of \<^verbatim>\<open>src/new_src\<close>. The source reads
  \<^verbatim>\<open>strand = splice_region.start\<close>: the value handed to \<^verbatim>\<open>get_scaling\<close> as
  \<^verbatim>\<open>strand\<close> is the integer start coordinate.
\<close>

definition plot_density_scaling_new ::
  "rounding \<Rightarrow> settings \<Rightarrow> splice_region \<Rightarrow> py_error + (real list \<times> (int \<times> int) list)" where
  "plot_density_scaling_new r settings splice_region =
     (let intron_scale = s_intron_scale settings;
          exon_scale = s_exon_scale settings;
          reverse_minus = s_reverse_minus settings;
          exon_starts = sr_exon_starts splice_region;
          exon_ends = sr_exon_ends splice_region;
          tx_start = sr_start splice_region;
          tx_end = sr_end splice_region;
          strand = PyInt (sr_start splice_region)
      in get_scaling r tx_start tx_end strand exon_starts exon_ends intron_scale exon_scale
           reverse_minus)"

text \<open>
  The shared y axis of \<^verbatim>\<open>src/new_src\<close>, from the upper y limits of the drawn panels:
  \<^verbatim>\<open>max_used_yval = math.ceil(max(used_yvals))
  if max_used_yval % 2 == 1: max_used_yval += 1
  fake_ymin = -0.5 * max_used_yval\<close>
  The result is \<^verbatim>\<open>(fake_ymin, max_used_yval)\<close>.
\<close>

definition shared_axis_new :: "real list \<Rightarrow> py_error + real \<times> int" where
  "shared_axis_new used_yvals =
     py_bind (py_max used_yvals) (\<lambda>m.
       let c = \<lceil>m\<rceil>;
           max_used_yval = (if c mod 2 = 1 then c + 1 else c)
       in Inr (- (5 / 10) * of_int max_used_yval, max_used_yval))"

text \<open>
  One iteration of the first panel loop of \<^verbatim>\<open>src/new_src\<close>, for the sample at
  position \<open>i\<close> of \<open>nfiles\<close>: the x axis is shown on the last panel,
  \<^verbatim>\<open>if i < nfiles - 1: showXaxis = False else: showXaxis = True\<close>, and the panel is
  drawn with \<^verbatim>\<open>ymax=None\<close>.
\<close>

definition draw_panel_new ::
  "(junction list \<Rightarrow> junction list) \<Rightarrow> real list \<Rightarrow> (int \<times> int) list \<Rightarrow> real \<Rightarrow> int \<Rightarrow> nat
     \<Rightarrow> nat \<times> read_depth \<Rightarrow> py_error + panel" where
  "draw_panel_new sorted_keys graphcoords graphToGene resolution nxticks nfiles item =
     (let i = fst item; average_read_depth = snd item;
          showXaxis = (\<not> int i < int nfiles - 1)
      in plot_density_single_new sorted_keys average_read_depth graphcoords graphToGene None
           resolution showXaxis nxticks)"

text \<open>
  \<^verbatim>\<open>plot_density\<close> of \<^verbatim>\<open>src/new_src\<close> up to the end of the second panel loop.
  \<^verbatim>\<open>used_yvals\<close> are read back from the drawing library
  (\<^verbatim>\<open>curr_ax.Ax.get_ylim()[1]\<close>): what the library reports for a drawn panel is the
  parameter \<open>get_ylim\<close>. Every panel then receives
  \<^verbatim>\<open>set_ybound(lower=fake_ymin, upper=1.2 * max_used_yval)\<close> and
  \<^verbatim>\<open>spines["left"].set_bounds(0, max_used_yval)\<close>.
\<close>

definition plot_density_new ::
  "rounding \<Rightarrow> (junction list \<Rightarrow> junction list) \<Rightarrow> (panel \<Rightarrow> real) \<Rightarrow> settings \<Rightarrow> read_depth list
     \<Rightarrow> splice_region \<Rightarrow> py_error + (real list \<times> axis_panel list)" where
  "plot_density_new r sorted_keys get_ylim settings read_depths_dict splice_region =
     py_bind (plot_density_scaling_new r settings splice_region) (\<lambda>scaling.
     py_bind (py_for (draw_panel_new sorted_keys (fst scaling) (snd scaling)
                        (s_resolution settings) (s_nxticks settings) (length read_depths_dict))
                     (enumerate 0 read_depths_dict)) (\<lambda>plotted_axes.
     py_bind (shared_axis_new (map get_ylim plotted_axes)) (\<lambda>axis.
       Inr (fst scaling,
            map (\<lambda>p. \<lparr>ap_panel = p, ap_ybound_lower = fst axis,
                       ap_ybound_upper = 12 / 10 * of_int (snd axis),
                       ap_axis_upper = of_int (snd axis)\<rparr>)
                plotted_axes))))"


subsection \<open>The order of the \<^verbatim>\<open>Junction\<close> class\<close>



subsection \<open>The shared bound in the words of the specification\<close>

text \<open>
  The specification describes the shared upper bound as the ceiling of the greatest panel
  maximum, incremented by one when that ceiling is odd. This definition follows those
  words; it is compared with the code below.
\<close>

definition spec_shared_upper_bound :: "real list \<Rightarrow> int" where
  "spec_shared_upper_bound maxima =
     (let c = \<lceil>Max (set maxima)\<rceil> in if odd c then c + 1 else c)"


section \<open>Properties\<close>

subsection \<open>The coordinate walk\<close>
























text \<open>
  The statement of C1 above leaves out the regions with an exon that begins left of
  \<open>tx_start\<close>. There the start of the slice is negative and counts from the end of the
  array: for the region from 10 to 14 and the exon from 8 to 12 the slice is empty,
  nothing is marked, and the offsets 0 and 1, which the exon covers, advance the
  coordinate by \<open>1 / intron_scale\<close>.
\<close>

lemma get_scaling_exon_left_of_region:
  "map_sum id fst (get_scaling no_rounding 10 14 (PyStr ''+'') [8] [12] 1 2 False) = Inr [0, 1, 2, 3, 4] \<and>
   exonic 10 [8] [12] 0 \<and> exonic 10 [8] [12] 1"
  by code_simp

subsection \<open>The depth loops\<close>

lemma py_index_nat: "i < length xs \<Longrightarrow> py_index xs (int i) = Inr (xs ! i)"
  by (simp add: py_index_def)

lemma py_bind_Inr [simp]: "py_bind (Inr v) f = f v"
  by (simp add: py_bind_def)

lemma py_bind_Inl [simp]: "py_bind (Inl e) f = Inl e"
  by (simp add: py_bind_def)

lemma map_nth_upt_take: "n \<le> length xs \<Longrightarrow> map ((!) xs) [0..<n] = take n xs"
  by (simp add: list_eq_iff_nth_eq)

lemma compress_loop_new_quiet:
  assumes "\<forall>i\<in>set idxs. i < length graphcoords \<and> i < length wiggle \<and>
             \<bar>graphcoords ! i - prevx\<bar> \<le> resolution"
  shows "compress_loop_new graphcoords wiggle resolution idxs (cx, cw, prevx, tmpval) =
           Inr (cx, cw, prevx, tmpval @ map ((!) wiggle) idxs)"
  using assms
proof (induction idxs arbitrary: tmpval)
  case Nil
  then show ?case by simp
next
  case (Cons i rest)
  then show ?case by (simp add: py_index_nat)
qed

lemma compress_loop_new_eager:
  assumes "resolution < 0"
    and "\<forall>i\<in>set idxs. i < length graphcoords \<and> i < length wiggle"
  shows "compress_loop_new graphcoords wiggle resolution idxs (cx, cw, prevx, []) =
           Inr (cx @ butlast (prevx # map ((!) graphcoords) idxs),
                cw @ map ((!) wiggle) idxs,
                last (prevx # map ((!) graphcoords) idxs), [])"
  using assms(2)
proof (induction idxs arbitrary: cx cw prevx)
  case Nil
  then show ?case by simp
next
  case (Cons i rest)
  have "\<bar>graphcoords ! i - prevx\<bar> > resolution" using assms(1) by linarith
  then show ?case using Cons by (simp add: py_index_nat py_true_div_def)
qed

lemma compress_loop_new_error:
  "compress_loop_new graphcoords wiggle resolution idxs st = Inl e \<Longrightarrow> e = IndexError"
proof (induction graphcoords wiggle resolution idxs st rule: compress_loop_new.induct)
  case (1 graphcoords wiggle resolution st)
  then show ?case by simp
next
  case (2 graphcoords wiggle resolution i rest compressed_x compressed_wiggle prevx tmpval)
  then show ?case
    by (auto simp: py_index_def py_true_div_def Let_def split: sum.splits if_splits)
qed

lemma copy_samples_utils_all:
  assumes "\<forall>i\<in>set idxs. i < length graph_coords \<and> i < length wiggle"
  shows "copy_samples_utils graph_coords wiggle idxs (cx, cw) =
           Inr (cx @ map ((!) graph_coords) idxs, cw @ map ((!) wiggle) idxs)"
  using assms
  by (induction idxs arbitrary: cx cw) (simp_all add: py_index_nat)

text \<open>
  Claim C10. In the depth loop of \<^verbatim>\<open>src/new_src\<close> a bucket is emitted only by a sample
  that lies more than \<open>resolution\<close> away from the start of the bucket, and what is
  accumulated after the last emission is dropped. So when every plot coordinate lies
  within \<open>resolution\<close> of the first one, the loop ends with nothing emitted and all the
  depth samples in \<^verbatim>\<open>tmpval\<close>, and the compressed output is empty although the depth
  samples are not.
\<close>

theorem compress_new_within_resolution_empty:
  assumes "graphcoords \<noteq> []" and "length graphcoords \<le> length wiggle"
    and "\<forall>g\<in>set graphcoords. \<bar>g - hd graphcoords\<bar> \<le> resolution"
  shows "compress_loop_new graphcoords wiggle resolution [0..<length graphcoords]
           ([], [], hd graphcoords, []) =
         Inr ([], [], hd graphcoords, take (length graphcoords) wiggle) \<and>
         compress_new graphcoords wiggle resolution = Inr ([], []) \<and>
         take (length graphcoords) wiggle \<noteq> []"
proof -
  have q: "\<forall>i\<in>set [0..<length graphcoords]. i < length graphcoords \<and> i < length wiggle \<and>
             \<bar>graphcoords ! i - hd graphcoords\<bar> \<le> resolution"
    using assms(2,3) by auto
  have loop: "compress_loop_new graphcoords wiggle resolution [0..<length graphcoords]
           ([], [], hd graphcoords, []) =
         Inr ([], [], hd graphcoords, take (length graphcoords) wiggle)"
    using compress_loop_new_quiet[OF q, of "[]" "[]" "[]"] assms(2)
    by (simp add: map_nth_upt_take)
  have first: "py_index graphcoords 0 = Inr (hd graphcoords)"
    using assms(1) by (cases graphcoords) (simp_all add: py_index_def)
  have "compress_new graphcoords wiggle resolution = Inr ([], [])"
    by (simp add: compress_new_def first loop)
  moreover have "take (length graphcoords) wiggle \<noteq> []"
    using assms(1,2) by auto
  ultimately show ?thesis using loop by simp
qed

text \<open>
  Three coordinates within \<open>1 / 2\<close> of the first one, at resolution \<open>1 / 2\<close>.
\<close>

theorem compress_new_within_resolution_empty_witness:
  "[0, 1 / 4, 1 / 2] \<noteq> ([] :: real list) \<and>
   length [0, 1 / 4, 1 / 2 :: real] \<le> length [5, 6, 7 :: real] \<and>
   list_all (\<lambda>g. \<bar>g - hd [0, 1 / 4, 1 / 2]\<bar> \<le> 1 / 2) [0, 1 / 4, 1 / 2 :: real] \<and>
   compress_new [0, 1 / 4, 1 / 2] [5, 6, 7] (1 / 2) = Inr ([], [])"
  using compress_new_within_resolution_empty[of "[0, 1 / 4, 1 / 2]" "[5, 6, 7]" "1 / 2"]
  by simp


text \<open>
  Claim C8, as the code has it. The depth loop of \<^verbatim>\<open>src/new_src\<close> has no short-circuit
  for a non-positive resolution. It never divides by zero. For a negative resolution it
  emits one point per sample and every emitted depth is the depth of that sample, but the
  emitted coordinate is the coordinate of the sample before: the first coordinate is
  emitted twice and the last one never. The depth loop of \<^verbatim>\<open>src/utils\<close> has no
  resolution and copies every sample unchanged.
\<close>

theorem compress_nonpositive_resolution:
  assumes "graphcoords \<noteq> []" and "length graphcoords \<le> length wiggle"
  shows "(resolution < 0 \<longrightarrow>
            compress_new graphcoords wiggle resolution =
              Inr (hd graphcoords # butlast graphcoords, take (length graphcoords) wiggle)) \<and>
         compress_new graphcoords wiggle resolution \<noteq> Inl ZeroDivisionError \<and>
         compress_utils graphcoords wiggle = Inr (graphcoords, take (length graphcoords) wiggle)"
proof -
  have b: "\<forall>i\<in>set [0..<length graphcoords]. i < length graphcoords \<and> i < length wiggle"
    using assms(2) by auto
  have first: "py_index graphcoords 0 = Inr (hd graphcoords)"
    using assms(1) by (cases graphcoords) (simp_all add: py_index_def)
  have all: "map ((!) graphcoords) [0..<length graphcoords] = graphcoords"
    by (simp add: map_nth)
  have neg: "compress_new graphcoords wiggle resolution =
      Inr (hd graphcoords # butlast graphcoords, take (length graphcoords) wiggle)"
    if "resolution < 0"
    using compress_loop_new_eager[OF that b, of "[]" "[]" "hd graphcoords"] assms
    by (simp add: compress_new_def first all map_nth_upt_take)
  have nodiv: "compress_new graphcoords wiggle resolution \<noteq> Inl ZeroDivisionError"
  proof
    assume a: "compress_new graphcoords wiggle resolution = Inl ZeroDivisionError"
    then obtain e where
      "compress_loop_new graphcoords wiggle resolution [0..<length graphcoords]
         ([], [], hd graphcoords, []) = Inl e" and "e = ZeroDivisionError"
      by (auto simp: compress_new_def first py_bind_def split: sum.splits)
    then show False using compress_loop_new_error by blast
  qed
  have utils: "compress_utils graphcoords wiggle = Inr (graphcoords, take (length graphcoords) wiggle)"
    using copy_samples_utils_all[OF b, of "[]" "[]"] assms(2)
    by (simp add: compress_utils_def all map_nth_upt_take)
  show ?thesis using neg nodiv utils by blast
qed

text \<open>
  Three samples at resolution \<open>-1\<close>.
\<close>

theorem compress_nonpositive_resolution_witness:
  "[0, 1, 2] \<noteq> ([] :: real list) \<and> length [0, 1, 2 :: real] \<le> length [5, 6, 7 :: real] \<and>
   (- 1 :: real) < 0 \<and>
   compress_new [0, 1, 2] [5, 6, 7] (- 1) = Inr (hd [0, 1, 2] # butlast [0, 1, 2], take (length [0, 1, 2 :: real]) [5, 6, 7]) \<and>
   compress_utils [0, 1, 2] [5, 6, 7] = Inr ([0, 1, 2], take (length [0, 1, 2 :: real]) [5, 6, 7])"
  using compress_nonpositive_resolution[of "[0, 1, 2]" "[5, 6, 7]" "- 1"]
  by simp

text \<open>
  The identity mapping of C8 fails in \<^verbatim>\<open>src/new_src\<close>: at resolution \<open>-1\<close> the
  coordinates \<open>[0, 1, 2]\<close> come out as \<open>[0, 0, 1]\<close>, and at resolution \<open>0\<close> three
  samples give two points, the first the mean of two samples.
\<close>

theorem compress_new_not_identity_counterexample:
  "compress_new [0, 1, 2] [5, 6, 7] (- 1) = Inr ([0, 0, 1], [5, 6, 7]) \<and>
   compress_new [0, 1, 2] [5, 6, 7] 0 = Inr ([0, 1], [11 / 2, 7])"
  by code_simp

subsection \<open>The fill order seen from \<^verbatim>\<open>plot_density\<close>\<close>

text \<open>
  Claim C2 at a plus-strand region with \<^verbatim>\<open>reverse_minus\<close> set. \<^verbatim>\<open>plot_density\<close> of
  \<^verbatim>\<open>src/new_src\<close> hands the start coordinate to \<^verbatim>\<open>get_scaling\<close> in the place of the
  strand, the test \<^verbatim>\<open>strand == '+'\<close> is false, and the coordinate array is filled
  back-to-front. \<^verbatim>\<open>plot_density\<close> of \<^verbatim>\<open>src/utils\<close> hands over the strand and fills
  the same region front-to-back. Every number of the example has an exact double and
  single, so the arithmetic is exact.
\<close>

theorem plot_density_new_mirrors_plus_strand:
  "map_sum id fst
     (plot_density_scaling_new no_rounding
        \<lparr>s_intron_scale = 1, s_exon_scale = 1, s_reverse_minus = True, s_resolution = 1 / 2, s_nxticks = 4\<rparr>
        \<lparr>sr_start = 10, sr_end = 12, sr_strand = ''+'', sr_exon_starts = [], sr_exon_ends = []\<rparr>)
     = Inr [2, 1, 0] \<and>
   map_sum id fst
     (plot_density_scaling_utils no_rounding
        \<lparr>s_intron_scale = 1, s_exon_scale = 1, s_reverse_minus = True, s_resolution = 1 / 2, s_nxticks = 4\<rparr>
        \<lparr>sr_start = 10, sr_end = 12, sr_strand = ''+'', sr_exon_starts = [], sr_exon_ends = []\<rparr>)
     = Inr [0, 1, 2]"
  by code_simp

subsection \<open>Junction endpoints\<close>

text \<open>
  Claim C3, as the code has it. The left index is computed from \<^verbatim>\<open>start - 1\<close>, the
  right index from \<^verbatim>\<open>end\<close>. On a coordinate array that covers \<open>[tx_start, tx_end]\<close>
  the left endpoint is flagged modified exactly when \<^verbatim>\<open>start - 1\<close> lies outside
  \<open>[tx_start, tx_end]\<close>, and the right endpoint exactly when \<^verbatim>\<open>end\<close> lies outside it.
\<close>

theorem resolve_endpoints_utils_flags:
  assumes "int (length graph_coords) = tx_end - tx_start + 1"
  shows "(snd (fst (resolve_endpoints_utils tx_start graph_coords jxn)) \<longleftrightarrow>
            \<not> (tx_start \<le> jxn_start jxn - 1 \<and> jxn_start jxn - 1 \<le> tx_end)) \<and>
         (snd (snd (resolve_endpoints_utils tx_start graph_coords jxn)) \<longleftrightarrow>
            \<not> (tx_start \<le> jxn_end jxn \<and> jxn_end jxn \<le> tx_end))"
  using assms
  by (auto simp: resolve_endpoints_utils_def get_limited_index_utils_def Let_def)

text \<open>
  A junction from 101 to 150 in the window from 100 to 200: neither endpoint is flagged.
\<close>

theorem resolve_endpoints_utils_flags_witness:
  "int (length (replicate 101 (0::real))) = 200 - 100 + 1 \<and>
   \<not> snd (fst (resolve_endpoints_utils 100 (replicate 101 0) \<lparr>jxn_start = 101, jxn_end = 150\<rparr>)) \<and>
   \<not> snd (snd (resolve_endpoints_utils 100 (replicate 101 0) \<lparr>jxn_start = 101, jxn_end = 150\<rparr>))"
  using resolve_endpoints_utils_flags[of "replicate 101 0" 200 100 "\<lparr>jxn_start = 101, jxn_end = 150\<rparr>"]
  by simp

text \<open>
  C3 as it is written fails for a junction that starts on \<open>tx_start\<close>: the junction from
  100 to 150 lies within the window from 100 to 200 and its left endpoint is flagged; the
  junction from 100 to 250 has only its end beyond the window and both endpoints are
  flagged.
\<close>

theorem resolve_endpoints_utils_boundary_counterexample:
  "(100 :: int) \<le> jxn_start \<lparr>jxn_start = 100, jxn_end = 150\<rparr> \<and>
   jxn_end \<lparr>jxn_start = 100, jxn_end = 150\<rparr> \<le> (200 :: int) \<and>
   snd (fst (resolve_endpoints_utils 100 (replicate 101 0) \<lparr>jxn_start = 100, jxn_end = 150\<rparr>)) \<and>
   snd (fst (resolve_endpoints_utils 100 (replicate 101 0) \<lparr>jxn_start = 100, jxn_end = 250\<rparr>)) \<and>
   snd (snd (resolve_endpoints_utils 100 (replicate 101 0) \<lparr>jxn_start = 100, jxn_end = 250\<rparr>))"
  by (simp add: resolve_endpoints_utils_def get_limited_index_utils_def)


subsection \<open>Settings that are not positive\<close>





lemma map_sum_Inr_obtain:
  "map_sum id f r = Inr v \<Longrightarrow> \<exists>w. r = Inr w \<and> f w = v"
  by (cases r) auto

text \<open>
  \<^verbatim>\<open>plot_density\<close> of \<^verbatim>\<open>src/utils\<close> evaluated in two stages, the scaling and the
  panel loop.
\<close>

lemma plot_density_utils_staged:
  assumes a: "plot_density_scaling_utils r S R = Inr (gc, g2g)"
    and p: "map_sum id (map ap_axis_upper)
              (py_for (draw_panel_utils gc g2g (s_nxticks S) no_bam (length (rd # rds)))
                 (enumerate 0 (rd # rds))) = Inr uppers"
  shows "map_sum id (map ap_axis_upper \<circ> snd) (plot_density_utils r S (rd # rds) R no_bam) = Inr uppers \<and>
     map_sum id fst (plot_density_utils r S (rd # rds) R no_bam) = Inr gc"
proof -
  obtain panels where
    q: "py_for (draw_panel_utils gc g2g (s_nxticks S) no_bam (length (rd # rds)))
          (enumerate 0 (rd # rds)) = Inr panels"
    and u: "map ap_axis_upper panels = uppers"
    using map_sum_Inr_obtain[OF p] by (elim exE conjE) (rule that)
  have "plot_density_utils r S (rd # rds) R no_bam = Inr (gc, panels)"
    unfolding plot_density_utils_def
    by (simp only: a q py_bind_Inr list.simps if_False fst_conv snd_conv)
  then show ?thesis using u by simp
qed

lemma plot_density_utils_staged_error:
  assumes a: "plot_density_scaling_utils r S R = Inr (gc, g2g)"
    and p: "py_for (draw_panel_utils gc g2g (s_nxticks S) no_bam (length (rd # rds)))
              (enumerate 0 (rd # rds)) = Inl e"
  shows "plot_density_utils r S (rd # rds) R no_bam = Inl e"
  unfolding plot_density_utils_def
  by (simp only: a p py_bind_Inr py_bind_Inl list.simps if_False fst_conv snd_conv)


text \<open>
  A render does raise on some scales, at the x-tick lookup
  \<^verbatim>\<open>graph_to_gene[int(x)]\<close> and with a \<^verbatim>\<open>KeyError\<close>. With both scales \<open>1 / 2\<close> on a
  region of five offsets the coordinates are \<open>0, 2, 4, 6, 8\<close>, the four ticks are
  \<open>0, 7 / 3, 14 / 3, 7\<close>, and no offset was recorded under \<open>7\<close>.
\<close>

lemma half_scale_render_key_error:
  "plot_density_utils no_rounding
     \<lparr>s_intron_scale = 1 / 2, s_exon_scale = 1 / 2, s_reverse_minus = False, s_resolution = 1 / 2,
       s_nxticks = 4\<rparr>
     [\<lparr>rd_start = 0, rd_wiggle = [1, 2, 3, 4, 5], rd_junctions_dict = [], rd_max = 5\<rparr>]
     \<lparr>sr_start = 0, sr_end = 4, sr_strand = ''+'', sr_exon_starts = [], sr_exon_ends = []\<rparr>
     False
   = Inl KeyError"
proof (rule plot_density_utils_staged_error[where gc = "[0, 2, 4, 6, 8]"
      and g2g = "[(0, 0), (2, 1), (4, 2), (6, 3), (8, 4)]"])
  show "plot_density_scaling_utils no_rounding
     \<lparr>s_intron_scale = 1 / 2, s_exon_scale = 1 / 2, s_reverse_minus = False, s_resolution = 1 / 2,
       s_nxticks = 4\<rparr>
     \<lparr>sr_start = 0, sr_end = 4, sr_strand = ''+'', sr_exon_starts = [], sr_exon_ends = []\<rparr>
     = Inr ([0, 2, 4, 6, 8], [(0, 0), (2, 1), (4, 2), (6, 3), (8, 4)])"
    by code_simp
  show "py_for (draw_panel_utils [0, 2, 4, 6, 8] [(0, 0), (2, 1), (4, 2), (6, 3), (8, 4)]
                 (s_nxticks \<lparr>s_intron_scale = 1 / 2, s_exon_scale = 1 / 2, s_reverse_minus = False,
                              s_resolution = 1 / 2, s_nxticks = 4\<rparr>)
                 False
                 (length [\<lparr>rd_start = 0, rd_wiggle = [1, 2, 3, 4, 5], rd_junctions_dict = [],
                           rd_max = 5\<rparr>]))
        (enumerate 0 [\<lparr>rd_start = 0, rd_wiggle = [1, 2, 3, 4, 5], rd_junctions_dict = [],
                       rd_max = 5\<rparr>]) = Inl KeyError"
    by code_simp
qed

subsection \<open>The layout order of the junctions\<close>







lemma py_for_nth:
  "py_for body xs = Inr ys \<Longrightarrow>
     length ys = length xs \<and> (\<forall>k<length xs. body (xs ! k) = Inr (ys ! k))"
proof (induction xs arbitrary: ys)
  case Nil
  then show ?case by simp
next
  case (Cons x xs)
  from Cons.prems obtain v vs where v: "body x = Inr v" and vs: "py_for body xs = Inr vs"
    and ys: "ys = v # vs"
    by (auto split: sum.splits)
  from Cons.IH[OF vs] have len: "length vs = length xs"
    and nth: "\<forall>k<length xs. body (xs ! k) = Inr (vs ! k)" by simp_all
  show ?case
  proof (intro conjI allI impI)
    show "length ys = length (x # xs)" using len ys by simp
  next
    fix k assume "k < length (x # xs)"
    then show "body ((x # xs) ! k) = Inr (ys ! k)"
      using v nth ys by (cases k) simp_all
  qed
qed

lemma py_bind_eq_Inr:
  "py_bind r f = Inr v \<longleftrightarrow> (\<exists>w. r = Inr w \<and> f w = Inr v)"
  by (cases r) simp_all

lemma jxns_sorted_list_utils_length:
  "length (jxns_sorted_list_utils jxns) = length jxns"
  by (simp add: jxns_sorted_list_utils_def py_sorted_reverse_def)

lemma junction_count_bounds_Max_Min:
  "jxns \<noteq> [] \<Longrightarrow>
     junction_count_bounds jxns = (Max (snd ` set jxns), Min (snd ` set jxns))"
proof (cases jxns)
  case Nil
  then show "jxns \<noteq> [] \<Longrightarrow> ?thesis" by simp
next
  case (Cons a rest)
  have "fold max (map snd rest) (snd a) = Max (set (snd a # map snd rest))"
    by (simp only: Max.set_eq_fold)
  moreover have "fold min (map snd rest) (snd a) = Min (set (snd a # map snd rest))"
    by (simp only: Min.set_eq_fold)
  ultimately show ?thesis
    using Cons by (simp add: junction_count_bounds_def)
qed

lemma plot_density_single_utils_arcs:
  assumes "plot_density_single_utils rd graph_coords graph_to_gene y_max_arg show_x_axis nx_ticks
             no_bam = Inr p"
  shows "\<exists>current_height.
    py_for (junction_arc_utils (rd_wiggle rd) graph_coords (rd_start rd) current_height no_bam
              (rd_junctions_dict rd)
              (snd (junction_count_bounds (rd_junctions_dict rd)))
              (fst (junction_count_bounds (rd_junctions_dict rd)) -
               snd (junction_count_bounds (rd_junctions_dict rd))))
           (enumerate 0 (jxns_sorted_list_utils (rd_junctions_dict rd))) = Inr (p_arcs p)"
  using assms
  unfolding plot_density_single_utils_def Let_def py_bind_eq_Inr
  by (elim exE conjE) auto

lemma junction_arc_utils_lw:
  assumes "junction_arc_utils wiggle graph_coords tx_start current_height no_bam jxns mn gap (k, j)
             = Inr a"
  shows "\<exists>c. map_of jxns j = Some c \<and> arc_lw a = line_width_utils c mn gap + 2 / 10"
  using assms
  unfolding junction_arc_utils_def Let_def py_bind_eq_Inr dict_get_def
  by (elim exE conjE) (auto split: option.splits)


lemma plot_density_single_new_arcs:
  assumes "plot_density_single_new sorted_keys rd graphcoords graphToGene ymax_arg resolution
             showXaxis nxticks = Inr p"
  shows "\<exists>current_height.
    py_for (junction_arc_new (rd_wiggle rd) graphcoords (rd_start rd) current_height)
           (enumerate 0 (sorted_keys (map fst (rd_junctions_dict rd)))) = Inr (p_arcs p)"
  using assms
  unfolding plot_density_single_new_def Let_def py_bind_eq_Inr
  by (elim exE conjE) auto

lemma junction_arc_new_lw:
  assumes "junction_arc_new wiggle graphcoords tx_start current_height item = Inr a"
  shows "arc_lw a = 5 / 10"
  using assms
  unfolding junction_arc_new_def Let_def py_bind_eq_Inr
  by (elim exE conjE) auto






subsection \<open>Stroke widths\<close>

text \<open>
  Claim C6, as the code has it. In \<^verbatim>\<open>src/utils\<close> the junction at position \<open>k\<close> of the
  layout order is stroked with width \<open>0.2 + (count - min) / (max - min)\<close>, where
  \<open>min\<close> and \<open>max\<close> are the least and the greatest count of the panel, when the counts
  are not all equal, and with width \<open>0.2\<close> when they are; nothing is divided by zero.
  The least width \<open>0.2\<close> is a constant of the code. In \<^verbatim>\<open>src/new_src\<close> every junction
  is stroked with the constant width \<open>0.5\<close>, whatever its count.
\<close>

theorem junction_stroke_width:
  assumes run: "plot_density_single_utils rd graph_coords graph_to_gene y_max_arg show_x_axis nx_ticks
                no_bam = Inr p"
    and k: "k < length (rd_junctions_dict rd)"
  shows "(\<exists>c. map_of (rd_junctions_dict rd) (jxns_sorted_list_utils (rd_junctions_dict rd) ! k) = Some c \<and>
            arc_lw (p_arcs p ! k) =
              (if Min (snd ` set (rd_junctions_dict rd)) < Max (snd ` set (rd_junctions_dict rd))
               then 2 / 10 + (c - Min (snd ` set (rd_junctions_dict rd))) /
                      (Max (snd ` set (rd_junctions_dict rd)) - Min (snd ` set (rd_junctions_dict rd)))
               else 2 / 10)) \<and>
         (plot_density_single_new sorted_keys rd' graphcoords' graphToGene' ymax_arg' resolution
            showXaxis' nxticks' = Inr q \<longrightarrow>
            (\<forall>a\<in>set (p_arcs q). arc_lw a = 5 / 10))"
proof
  let ?jxns = "rd_junctions_dict rd"
  let ?js = "jxns_sorted_list_utils ?jxns"
  have ne: "?jxns \<noteq> []" using k by auto
  obtain ch where loop:
    "py_for (junction_arc_utils (rd_wiggle rd) graph_coords (rd_start rd) ch no_bam ?jxns
              (snd (junction_count_bounds ?jxns))
              (fst (junction_count_bounds ?jxns) - snd (junction_count_bounds ?jxns)))
           (enumerate 0 ?js) = Inr (p_arcs p)"
    using plot_density_single_utils_arcs[OF run] by (elim exE) (rule that)
  have kk: "k < length (enumerate 0 ?js)"
    using k by (simp add: jxns_sorted_list_utils_length)
  have item: "enumerate 0 ?js ! k = (k, ?js ! k)"
    using k by (simp add: nth_enumerate_eq jxns_sorted_list_utils_length)
  have "junction_arc_utils (rd_wiggle rd) graph_coords (rd_start rd) ch no_bam ?jxns
              (snd (junction_count_bounds ?jxns))
              (fst (junction_count_bounds ?jxns) - snd (junction_count_bounds ?jxns))
              (k, ?js ! k) = Inr (p_arcs p ! k)"
    using py_for_nth[OF loop] kk item by (metis (no_types, lifting))
  from junction_arc_utils_lw[OF this]
  obtain c where c: "map_of ?jxns (?js ! k) = Some c"
    and lw: "arc_lw (p_arcs p ! k) =
       line_width_utils c (snd (junction_count_bounds ?jxns))
         (fst (junction_count_bounds ?jxns) - snd (junction_count_bounds ?jxns)) + 2 / 10"
    by (elim exE conjE) (rule that)
  have "arc_lw (p_arcs p ! k) =
              (if Min (snd ` set ?jxns) < Max (snd ` set ?jxns)
               then 2 / 10 + (c - Min (snd ` set ?jxns)) / (Max (snd ` set ?jxns) - Min (snd ` set ?jxns))
               else 2 / 10)"
    unfolding lw by (simp add: junction_count_bounds_Max_Min[OF ne] line_width_utils_def)
  with c show "\<exists>c. map_of ?jxns (?js ! k) = Some c \<and>
            arc_lw (p_arcs p ! k) =
              (if Min (snd ` set ?jxns) < Max (snd ` set ?jxns)
               then 2 / 10 + (c - Min (snd ` set ?jxns)) / (Max (snd ` set ?jxns) - Min (snd ` set ?jxns))
               else 2 / 10)"
    by (intro exI[of _ c] conjI)
next
  show "plot_density_single_new sorted_keys rd' graphcoords' graphToGene' ymax_arg' resolution
            showXaxis' nxticks' = Inr q \<longrightarrow>
            (\<forall>a\<in>set (p_arcs q). arc_lw a = 5 / 10)"
  proof (intro impI ballI)
    fix a assume run': "plot_density_single_new sorted_keys rd' graphcoords' graphToGene' ymax_arg' resolution
            showXaxis' nxticks' = Inr q"
      and a: "a \<in> set (p_arcs q)"
    obtain ch where loop:
      "py_for (junction_arc_new (rd_wiggle rd') graphcoords' (rd_start rd') ch)
           (enumerate 0 (sorted_keys (map fst (rd_junctions_dict rd')))) = Inr (p_arcs q)"
      using plot_density_single_new_arcs[OF run'] by (elim exE) (rule that)
    obtain i where i: "i < length (p_arcs q)" "p_arcs q ! i = a"
      using a by (auto simp: in_set_conv_nth)
    have "junction_arc_new (rd_wiggle rd') graphcoords' (rd_start rd') ch
            (enumerate 0 (sorted_keys (map fst (rd_junctions_dict rd'))) ! i) = Inr (p_arcs q ! i)"
      using py_for_nth[OF loop] i(1) by simp
    then show "arc_lw a = 5 / 10"
      using junction_arc_new_lw i(2) by blast
  qed
qed


text \<open>
  The scenario of the claim in \<^verbatim>\<open>src/utils\<close>: two junctions with counts 5 and 20. The
  junction with count 20 has the longer span and is laid out first, with width \<open>1.2\<close>;
  the junction with count 5 follows with width \<open>0.2\<close>.
\<close>

theorem junction_stroke_width_witness:
  "\<exists>p. plot_density_single_utils
       \<lparr>rd_start = 0, rd_wiggle = [4, 4, 4, 4, 4, 4],
        rd_junctions_dict = [(\<lparr>jxn_start = 1, jxn_end = 3\<rparr>, 5), (\<lparr>jxn_start = 1, jxn_end = 5\<rparr>, 20)],
        rd_max = 4\<rparr> [0, 1, 2, 3, 4, 5] [(0, 0), (1, 1), (2, 2), (3, 3), (4, 4), (5, 5)]
        None True 4 False = Inr p \<and>
     arc_lw (p_arcs p ! 0) = 12 / 10 \<and> arc_lw (p_arcs p ! 1) = 2 / 10"
proof -
  have "\<not> isl (plot_density_single_utils
       \<lparr>rd_start = 0, rd_wiggle = [4, 4, 4, 4, 4, 4],
        rd_junctions_dict = [(\<lparr>jxn_start = 1, jxn_end = 3\<rparr>, 5), (\<lparr>jxn_start = 1, jxn_end = 5\<rparr>, 20)],
        rd_max = 4\<rparr> [0, 1, 2, 3, 4, 5] [(0, 0), (1, 1), (2, 2), (3, 3), (4, 4), (5, 5)]
        None True 4 False)"
    by code_simp
  then obtain p where run: "plot_density_single_utils
       \<lparr>rd_start = 0, rd_wiggle = [4, 4, 4, 4, 4, 4],
        rd_junctions_dict = [(\<lparr>jxn_start = 1, jxn_end = 3\<rparr>, 5), (\<lparr>jxn_start = 1, jxn_end = 5\<rparr>, 20)],
        rd_max = 4\<rparr> [0, 1, 2, 3, 4, 5] [(0, 0), (1, 1), (2, 2), (3, 3), (4, 4), (5, 5)]
        None True 4 False = Inr p"
    by (cases "plot_density_single_utils
       \<lparr>rd_start = 0, rd_wiggle = [4, 4, 4, 4, 4, 4],
        rd_junctions_dict = [(\<lparr>jxn_start = 1, jxn_end = 3\<rparr>, 5), (\<lparr>jxn_start = 1, jxn_end = 5\<rparr>, 20)],
        rd_max = 4\<rparr> [0, 1, 2, 3, 4, 5] [(0, 0), (1, 1), (2, 2), (3, 3), (4, 4), (5, 5)]
        None True 4 False") simp_all
  have srt: "jxns_sorted_list_utils [(\<lparr>jxn_start = 1, jxn_end = 3\<rparr>, 5 :: real), (\<lparr>jxn_start = 1, jxn_end = 5\<rparr>, 20)]
      = [\<lparr>jxn_start = 1, jxn_end = 5\<rparr>, \<lparr>jxn_start = 1, jxn_end = 3\<rparr>]"
    by code_simp
  have mn: "Min (snd ` set [(\<lparr>jxn_start = 1, jxn_end = 3\<rparr>, 5 :: real), (\<lparr>jxn_start = 1, jxn_end = 5\<rparr>, 20)]) = 5" and mx: "Max (snd ` set [(\<lparr>jxn_start = 1, jxn_end = 3\<rparr>, 5 :: real), (\<lparr>jxn_start = 1, jxn_end = 5\<rparr>, 20)]) = 20"
    by simp_all
  have k0: "0 < length (rd_junctions_dict \<lparr>rd_start = 0, rd_wiggle = [4, 4, 4, 4, 4, 4],
        rd_junctions_dict = [(\<lparr>jxn_start = 1, jxn_end = 3\<rparr>, 5), (\<lparr>jxn_start = 1, jxn_end = 5\<rparr>, 20)],
        rd_max = 4\<rparr>)"
    and k1: "1 < length (rd_junctions_dict \<lparr>rd_start = 0, rd_wiggle = [4, 4, 4, 4, 4, 4],
        rd_junctions_dict = [(\<lparr>jxn_start = 1, jxn_end = 3\<rparr>, 5), (\<lparr>jxn_start = 1, jxn_end = 5\<rparr>, 20)],
        rd_max = 4\<rparr>)"
    by simp_all
  have w0: "arc_lw (p_arcs p ! 0) = 12 / 10"
    using conjunct1[OF junction_stroke_width[OF run k0]]
    by (simp add: srt mn mx)
  have w1: "arc_lw (p_arcs p ! 1) = 2 / 10"
    using conjunct1[OF junction_stroke_width[OF run k1]]
    by (simp add: srt mn mx)
  show ?thesis using run w0 w1 by (intro exI[of _ p] conjI)
qed

text \<open>
  The same panel in \<^verbatim>\<open>src/new_src\<close>: both junctions are stroked with width \<open>0.5\<close>,
  not with \<open>0.2\<close> and \<open>1.2\<close>.
\<close>

theorem junction_stroke_width_new_counterexample:
  "map_sum id (map arc_lw \<circ> p_arcs)
     (plot_density_single_new id
        \<lparr>rd_start = 0, rd_wiggle = [4, 4, 4, 4, 4, 4],
        rd_junctions_dict = [(\<lparr>jxn_start = 1, jxn_end = 3\<rparr>, 5), (\<lparr>jxn_start = 1, jxn_end = 5\<rparr>, 20)],
        rd_max = 4\<rparr> [0, 1, 2, 3, 4, 5] [(0, 0), (1, 1), (2, 2), (3, 3), (4, 4), (5, 5)]
        None (1 / 2) True 4) = Inr [1 / 2, 1 / 2]"
  by code_simp


subsection \<open>Placement by rank\<close>

lemma junction_arc_utils_pts:
  assumes "junction_arc_utils wiggle graph_coords tx_start current_height no_bam jxns mn gap (k, j)
             = Inr a"
  shows "(even k \<longrightarrow>
            map snd (arc_pts a) =
              [if snd (fst (resolve_endpoints_utils tx_start graph_coords j)) then - current_height else 0,
               - current_height, - current_height,
               if snd (snd (resolve_endpoints_utils tx_start graph_coords j)) then - current_height else 0]) \<and>
         (odd k \<longrightarrow>
            (\<exists>l r. py_index wiggle (fst (fst (resolve_endpoints_utils tx_start graph_coords j))) = Inr l \<and>
                   py_index wiggle (fst (snd (resolve_endpoints_utils tx_start graph_coords j))) = Inr r \<and>
                   map snd (arc_pts a) =
                     [if snd (fst (resolve_endpoints_utils tx_start graph_coords j))
                      then (if no_bam then l / 2 else l) + current_height
                      else (if no_bam then l / 2 else l),
                      (if no_bam then l / 2 else l) + current_height,
                      (if no_bam then r / 2 else r) + current_height,
                      if snd (snd (resolve_endpoints_utils tx_start graph_coords j))
                      then (if no_bam then r / 2 else r) + current_height
                      else (if no_bam then r / 2 else r)]))"
  using assms
  unfolding junction_arc_utils_def Let_def py_bind_eq_Inr
  by (elim exE conjE) (auto simp: py_bind_eq_Inr even_iff_mod_2_eq_zero split: if_splits)

lemma junction_arc_new_pts:
  assumes "junction_arc_new wiggle graphcoords tx_start current_height (k, j) = Inr a"
  shows "(odd k \<longrightarrow> map snd (arc_pts a) = [0, - current_height, - current_height, 0]) \<and>
         (even k \<longrightarrow>
            (\<exists>l r. py_index wiggle
                     (get_limited_index_new (jxn_start j - tx_start - 1) (int (length wiggle))) = Inr l \<and>
                   py_index wiggle
                     (get_limited_index_new (jxn_end j - tx_start) (int (length wiggle))) = Inr r \<and>
                   map snd (arc_pts a) = [l, l + current_height, r + current_height, r]))"
  using assms
  unfolding junction_arc_new_def Let_def py_bind_eq_Inr
  by (elim exE conjE) (auto simp: py_bind_eq_Inr odd_iff_mod_2_eq_one split: if_splits)


lemma heights_nonpositive:
  assumes "map snd pts = hs" and "\<forall>h\<in>set hs. h \<le> (0::real)"
  shows "\<forall>pt\<in>set pts. snd pt \<le> 0"
proof
  fix pt assume "pt \<in> set pts"
  then have "snd pt \<in> set (map snd pts)" by simp
  then show "snd pt \<le> 0" using assms by simp
qed

text \<open>
  Claim C5, as the code has it. The junction loop alternates by the parity of the rank
  \<open>k\<close> in the layout order, and the two versions assign the sides the opposite way.
  In \<^verbatim>\<open>src/new_src\<close> a junction of even rank is drawn above the coverage signal, its
  two end anchors at the depths read from the depth array and its two inner control
  points \<^verbatim>\<open>current_height\<close> above them, and a junction of odd rank is drawn below the
  baseline at heights that are not positive. In \<^verbatim>\<open>src/utils\<close> it is the junction of
  even rank that is drawn below the baseline at heights that are not positive, and the
  junction of odd rank that is drawn above the signal from the depths of the depth array
  (halved when there is no alignment file; the anchor of a modified endpoint is raised by
  \<^verbatim>\<open>current_height\<close>). \<^verbatim>\<open>current_height\<close> is three eighths of the upper y value of
  the panel and is assumed not negative.
\<close>

theorem junction_rank_placement:
  assumes ch: "0 \<le> current_height" and k: "k < length js"
  shows "(py_for (junction_arc_new wiggle graphcoords tx_start current_height) (enumerate 0 js)
            = Inr arcs \<longrightarrow>
          (even k \<longrightarrow>
             (\<exists>l r. py_index wiggle
                      (get_limited_index_new (jxn_start (js ! k) - tx_start - 1) (int (length wiggle)))
                      = Inr l \<and>
                    py_index wiggle
                      (get_limited_index_new (jxn_end (js ! k) - tx_start) (int (length wiggle)))
                      = Inr r \<and>
                    map snd (arc_pts (arcs ! k)) = [l, l + current_height, r + current_height, r])) \<and>
          (odd k \<longrightarrow> (\<forall>pt\<in>set (arc_pts (arcs ! k)). snd pt \<le> 0))) \<and>
         (py_for (junction_arc_utils wiggle graphcoords tx_start current_height no_bam jxns mn gap)
            (enumerate 0 js) = Inr arcs' \<longrightarrow>
          (even k \<longrightarrow> (\<forall>pt\<in>set (arc_pts (arcs' ! k)). snd pt \<le> 0)) \<and>
          (odd k \<longrightarrow>
             (\<exists>l r. py_index wiggle (fst (fst (resolve_endpoints_utils tx_start graphcoords (js ! k))))
                      = Inr l \<and>
                    py_index wiggle (fst (snd (resolve_endpoints_utils tx_start graphcoords (js ! k))))
                      = Inr r \<and>
                    map snd (arc_pts (arcs' ! k)) =
                      [if snd (fst (resolve_endpoints_utils tx_start graphcoords (js ! k)))
                       then (if no_bam then l / 2 else l) + current_height
                       else (if no_bam then l / 2 else l),
                       (if no_bam then l / 2 else l) + current_height,
                       (if no_bam then r / 2 else r) + current_height,
                       if snd (snd (resolve_endpoints_utils tx_start graphcoords (js ! k)))
                       then (if no_bam then r / 2 else r) + current_height
                       else (if no_bam then r / 2 else r)])))"
proof (intro conjI impI)
  have kk: "k < length (enumerate 0 js)" using k by simp
  have item: "enumerate 0 js ! k = (k, js ! k)" using k by (simp add: nth_enumerate_eq)
  {
    assume loop: "py_for (junction_arc_new wiggle graphcoords tx_start current_height)
                    (enumerate 0 js) = Inr arcs"
    have a: "junction_arc_new wiggle graphcoords tx_start current_height (k, js ! k) = Inr (arcs ! k)"
      using py_for_nth[OF loop] kk item by (metis (no_types, lifting))
    note t = junction_arc_new_pts[OF a]
    {
      assume "even k"
      then show "\<exists>l r. py_index wiggle
                      (get_limited_index_new (jxn_start (js ! k) - tx_start - 1) (int (length wiggle)))
                      = Inr l \<and>
                    py_index wiggle
                      (get_limited_index_new (jxn_end (js ! k) - tx_start) (int (length wiggle)))
                      = Inr r \<and>
                    map snd (arc_pts (arcs ! k)) = [l, l + current_height, r + current_height, r]"
        using t by (rule_tac mp[OF conjunct2])
    }
    {
      assume "odd k"
      then have "map snd (arc_pts (arcs ! k)) = [0, - current_height, - current_height, 0]"
        using t by (rule_tac mp[OF conjunct1])
      then show "\<forall>pt\<in>set (arc_pts (arcs ! k)). snd pt \<le> 0"
        by (rule heights_nonpositive) (simp add: ch)
    }
  }
  {
    assume loop: "py_for (junction_arc_utils wiggle graphcoords tx_start current_height no_bam jxns mn gap)
            (enumerate 0 js) = Inr arcs'"
    have a: "junction_arc_utils wiggle graphcoords tx_start current_height no_bam jxns mn gap
               (k, js ! k) = Inr (arcs' ! k)"
      using py_for_nth[OF loop] kk item by (metis (no_types, lifting))
    note t = junction_arc_utils_pts[OF a]
    {
      assume "even k"
      then have "map snd (arc_pts (arcs' ! k)) =
              [if snd (fst (resolve_endpoints_utils tx_start graphcoords (js ! k))) then - current_height else 0,
               - current_height, - current_height,
               if snd (snd (resolve_endpoints_utils tx_start graphcoords (js ! k))) then - current_height else 0]"
        using t by (rule_tac mp[OF conjunct1])
      then show "\<forall>pt\<in>set (arc_pts (arcs' ! k)). snd pt \<le> 0"
        by (rule heights_nonpositive) (simp add: ch)
    }
    {
      assume "odd k"
      then show "\<exists>l r. py_index wiggle (fst (fst (resolve_endpoints_utils tx_start graphcoords (js ! k))))
                      = Inr l \<and>
                    py_index wiggle (fst (snd (resolve_endpoints_utils tx_start graphcoords (js ! k))))
                      = Inr r \<and>
                    map snd (arc_pts (arcs' ! k)) =
                      [if snd (fst (resolve_endpoints_utils tx_start graphcoords (js ! k)))
                       then (if no_bam then l / 2 else l) + current_height
                       else (if no_bam then l / 2 else l),
                       (if no_bam then l / 2 else l) + current_height,
                       (if no_bam then r / 2 else r) + current_height,
                       if snd (snd (resolve_endpoints_utils tx_start graphcoords (js ! k)))
                       then (if no_bam then r / 2 else r) + current_height
                       else (if no_bam then r / 2 else r)]"
        using t by (rule_tac mp[OF conjunct2])
    }
  }
qed

text \<open>
  C5 as it is written fails in \<^verbatim>\<open>src/utils\<close>: on a panel of depth 4 throughout the
  junction of rank 0 has the heights \<open>0, -33/20, -33/20, 0\<close>, below the baseline and not
  taken from the depth array, and the junction of rank 1 is the one anchored at depth 4.
\<close>

theorem junction_rank_placement_utils_counterexample:
  "map_sum id (map (map snd \<circ> arc_pts) \<circ> p_arcs)
     (plot_density_single_utils
        \<lparr>rd_start = 0, rd_wiggle = [4, 4, 4, 4, 4, 4],
        rd_junctions_dict = [(\<lparr>jxn_start = 1, jxn_end = 3\<rparr>, 5), (\<lparr>jxn_start = 1, jxn_end = 5\<rparr>, 20)],
        rd_max = 4\<rparr> [0, 1, 2, 3, 4, 5] [(0, 0), (1, 1), (2, 2), (3, 3), (4, 4), (5, 5)]
        None True 4 False)
     = Inr [[0, - (33 / 20), - (33 / 20), 0], [4, 4 + 33 / 20, 4 + 33 / 20, 4]]"
  by code_simp


text \<open>
  The two junctions of that panel at rank 1: below the baseline in \<^verbatim>\<open>src/new_src\<close>,
  anchored at depth 4 in \<^verbatim>\<open>src/utils\<close>.
\<close>

theorem junction_rank_placement_witness:
  "(0::real) \<le> 33 / 20 \<and>
   (1::nat) < length [\<lparr>jxn_start = 1, jxn_end = 5\<rparr>, \<lparr>jxn_start = 1, jxn_end = 3\<rparr>] \<and>
   (\<exists>arcs. py_for (junction_arc_new [4, 4, 4, 4, 4, 4] [0, 1, 2, 3, 4, 5] 0 (33 / 20))
          (enumerate 0 [\<lparr>jxn_start = 1, jxn_end = 5\<rparr>, \<lparr>jxn_start = 1, jxn_end = 3\<rparr>]) = Inr arcs \<and>
      list_all (\<lambda>pt. snd pt \<le> 0) (arc_pts (arcs ! 1))) \<and>
   (\<exists>arcs'. py_for (junction_arc_utils [4, 4, 4, 4, 4, 4] [0, 1, 2, 3, 4, 5] 0 (33 / 20) False
                  [(\<lparr>jxn_start = 1, jxn_end = 3\<rparr>, 5), (\<lparr>jxn_start = 1, jxn_end = 5\<rparr>, 20)] 5 15)
          (enumerate 0 [\<lparr>jxn_start = 1, jxn_end = 5\<rparr>, \<lparr>jxn_start = 1, jxn_end = 3\<rparr>]) = Inr arcs' \<and>
      map snd (arc_pts (arcs' ! 1)) = [4, 4 + 33 / 20, 4 + 33 / 20, 4])"
proof -
  have c: "(0::real) \<le> 33 / 20" by simp
  have k: "(1::nat) < length [\<lparr>jxn_start = 1, jxn_end = 5\<rparr>, \<lparr>jxn_start = 1, jxn_end = 3\<rparr>]" by simp
  have "\<not> isl (py_for (junction_arc_new [4, 4, 4, 4, 4, 4] [0, 1, 2, 3, 4, 5] 0 (33 / 20))
          (enumerate 0 [\<lparr>jxn_start = 1, jxn_end = 5\<rparr>, \<lparr>jxn_start = 1, jxn_end = 3\<rparr>]))"
    by code_simp
  then obtain arcs where n: "py_for (junction_arc_new [4, 4, 4, 4, 4, 4] [0, 1, 2, 3, 4, 5] 0 (33 / 20))
          (enumerate 0 [\<lparr>jxn_start = 1, jxn_end = 5\<rparr>, \<lparr>jxn_start = 1, jxn_end = 3\<rparr>]) = Inr arcs"
    by (cases "py_for (junction_arc_new [4, 4, 4, 4, 4, 4] [0, 1, 2, 3, 4, 5] 0 (33 / 20))
          (enumerate 0 [\<lparr>jxn_start = 1, jxn_end = 5\<rparr>, \<lparr>jxn_start = 1, jxn_end = 3\<rparr>])") simp_all
  have "\<not> isl (py_for (junction_arc_utils [4, 4, 4, 4, 4, 4] [0, 1, 2, 3, 4, 5] 0 (33 / 20) False
                  [(\<lparr>jxn_start = 1, jxn_end = 3\<rparr>, 5), (\<lparr>jxn_start = 1, jxn_end = 5\<rparr>, 20)] 5 15)
          (enumerate 0 [\<lparr>jxn_start = 1, jxn_end = 5\<rparr>, \<lparr>jxn_start = 1, jxn_end = 3\<rparr>]))"
    by code_simp
  then obtain arcs' where u: "py_for (junction_arc_utils [4, 4, 4, 4, 4, 4] [0, 1, 2, 3, 4, 5] 0 (33 / 20) False
                  [(\<lparr>jxn_start = 1, jxn_end = 3\<rparr>, 5), (\<lparr>jxn_start = 1, jxn_end = 5\<rparr>, 20)] 5 15)
          (enumerate 0 [\<lparr>jxn_start = 1, jxn_end = 5\<rparr>, \<lparr>jxn_start = 1, jxn_end = 3\<rparr>]) = Inr arcs'"
    by (cases "py_for (junction_arc_utils [4, 4, 4, 4, 4, 4] [0, 1, 2, 3, 4, 5] 0 (33 / 20) False
                  [(\<lparr>jxn_start = 1, jxn_end = 3\<rparr>, 5), (\<lparr>jxn_start = 1, jxn_end = 5\<rparr>, 20)] 5 15)
          (enumerate 0 [\<lparr>jxn_start = 1, jxn_end = 5\<rparr>, \<lparr>jxn_start = 1, jxn_end = 3\<rparr>])") simp_all
  note t = junction_rank_placement[OF c k, where wiggle = "[4, 4, 4, 4, 4, 4]"
      and graphcoords = "[0, 1, 2, 3, 4, 5]" and tx_start = 0 and arcs = arcs and no_bam = False
      and jxns = "[(\<lparr>jxn_start = 1, jxn_end = 3\<rparr>, 5), (\<lparr>jxn_start = 1, jxn_end = 5\<rparr>, 20)]" and mn = 5 and gap = 15 and arcs' = arcs']
  have o: "odd (1::nat)" by simp
  have A: "\<forall>pt\<in>set (arc_pts (arcs ! 1)). snd pt \<le> 0"
    by (rule mp[OF conjunct2[OF mp[OF conjunct1[OF t] n]] o])
  have "\<exists>l r. py_index [4, 4, 4, 4, 4, 4 :: real]
                 (fst (fst (resolve_endpoints_utils 0 [0, 1, 2, 3, 4, 5] ([\<lparr>jxn_start = 1, jxn_end = 5\<rparr>, \<lparr>jxn_start = 1, jxn_end = 3\<rparr>] ! 1)))) = Inr l \<and>
               py_index [4, 4, 4, 4, 4, 4 :: real]
                 (fst (snd (resolve_endpoints_utils 0 [0, 1, 2, 3, 4, 5] ([\<lparr>jxn_start = 1, jxn_end = 5\<rparr>, \<lparr>jxn_start = 1, jxn_end = 3\<rparr>] ! 1)))) = Inr r \<and>
               map snd (arc_pts (arcs' ! 1)) =
                 [if snd (fst (resolve_endpoints_utils 0 [0, 1, 2, 3, 4, 5] ([\<lparr>jxn_start = 1, jxn_end = 5\<rparr>, \<lparr>jxn_start = 1, jxn_end = 3\<rparr>] ! 1)))
                  then (if False then l / 2 else l) + 33 / 20
                  else (if False then l / 2 else l),
                  (if False then l / 2 else l) + 33 / 20,
                  (if False then r / 2 else r) + 33 / 20,
                  if snd (snd (resolve_endpoints_utils 0 [0, 1, 2, 3, 4, 5] ([\<lparr>jxn_start = 1, jxn_end = 5\<rparr>, \<lparr>jxn_start = 1, jxn_end = 3\<rparr>] ! 1)))
                  then (if False then r / 2 else r) + 33 / 20
                  else (if False then r / 2 else r)]"
    by (rule mp[OF conjunct2[OF mp[OF conjunct2[OF t] u]] o])
  then have B: "map snd (arc_pts (arcs' ! 1)) = [4, 4 + 33 / 20, 4 + 33 / 20, 4]"
    by (auto simp: resolve_endpoints_utils_def get_limited_index_utils_def py_index_def)
  have A': "list_all (\<lambda>pt. snd pt \<le> 0) (arc_pts (arcs ! 1))"
    using A by (simp add: list_all_iff)
  show ?thesis
    using c k n u A' B by (intro conjI exI[of _ arcs] exI[of _ arcs'])
qed


subsection \<open>The y axis of the panels\<close>

lemma py_max_Max: "xs \<noteq> [] \<Longrightarrow> py_max xs = Inr (Max (set xs))"
proof (cases xs)
  case Nil
  then show "xs \<noteq> [] \<Longrightarrow> ?thesis" by simp
next
  case (Cons y ys)
  have "fold max ys y = Max (set (y # ys))" by (simp only: Max.set_eq_fold)
  then show ?thesis using Cons by (simp add: py_max_def)
qed

lemma shared_axis_new_spec:
  assumes "used_yvals \<noteq> []"
  shows "shared_axis_new used_yvals =
           Inr (- (5 / 10) * of_int (spec_shared_upper_bound used_yvals),
                spec_shared_upper_bound used_yvals)"
  by (simp add: shared_axis_new_def py_max_Max[OF assms] spec_shared_upper_bound_def Let_def
      odd_iff_mod_2_eq_one)

lemma shared_axis_new_nonempty:
  "shared_axis_new used_yvals = Inr axis \<Longrightarrow> used_yvals \<noteq> []"
  by (auto simp: shared_axis_new_def py_max_def)

lemma plot_density_new_panels:
  assumes "plot_density_new r sorted_keys get_ylim settings read_depths_dict splice_region = Inr (gc, aps)"
  shows "\<exists>g2g plotted_axes axis.
           py_for (draw_panel_new sorted_keys gc g2g (s_resolution settings) (s_nxticks settings)
                     (length read_depths_dict))
                  (enumerate 0 read_depths_dict) = Inr plotted_axes \<and>
           shared_axis_new (map get_ylim plotted_axes) = Inr axis \<and>
           aps = map (\<lambda>p. \<lparr>ap_panel = p, ap_ybound_lower = fst axis,
                       ap_ybound_upper = 12 / 10 * of_int (snd axis),
                       ap_axis_upper = of_int (snd axis)\<rparr>) plotted_axes"
proof -
  from assms obtain w plotted axis where
    l: "py_for (draw_panel_new sorted_keys (fst w) (snd w) (s_resolution settings)
                  (s_nxticks settings) (length read_depths_dict))
               (enumerate 0 read_depths_dict) = Inr plotted"
    and x: "shared_axis_new (map get_ylim plotted) = Inr axis"
    and e: "Inr (fst w, map (\<lambda>p. \<lparr>ap_panel = p, ap_ybound_lower = fst axis,
                       ap_ybound_upper = 12 / 10 * of_int (snd axis),
                       ap_axis_upper = of_int (snd axis)\<rparr>) plotted)
            = (Inr (gc, aps) :: py_error + (real list \<times> axis_panel list))"
    unfolding plot_density_new_def py_bind_eq_Inr
    by (elim exE conjE) (rule that)
  from e have gc: "fst w = gc"
    and aps: "aps = map (\<lambda>p. \<lparr>ap_panel = p, ap_ybound_lower = fst axis,
                       ap_ybound_upper = 12 / 10 * of_int (snd axis),
                       ap_axis_upper = of_int (snd axis)\<rparr>) plotted"
    by simp_all
  show ?thesis
    using l x aps unfolding gc
    by (intro exI[of _ "snd w"] exI[of _ plotted] exI[of _ axis] conjI)
qed

lemma plot_density_utils_panels:
  assumes "plot_density_utils r settings read_depths_dict splice_region no_bam = Inr (gc, aps)"
  shows "\<exists>g2g. py_for (draw_panel_utils gc g2g (s_nxticks settings) no_bam (length read_depths_dict))
                  (enumerate 0 read_depths_dict) = Inr aps"
  using assms
  unfolding plot_density_utils_def py_bind_eq_Inr
  by (elim exE conjE) (auto simp: py_bind_eq_Inr split: if_splits)

lemma draw_panel_utils_axis:
  assumes "draw_panel_utils gc g2g nx no_bam n (i, rd) = Inr ap"
  shows "ap_axis_upper ap =
           (if py_mod (rd_max rd) 2 = 1 then rd_max rd + 1 else rd_max rd)"
  using assms
  unfolding draw_panel_utils_def Let_def py_bind_eq_Inr panel_axis_utils_def
  by (elim exE conjE) auto

text \<open>
  Claim C7, as the code has it. In \<^verbatim>\<open>src/new_src\<close> one upper bound is computed for
  the render: the ceiling of the greatest of the upper y limits that the drawing library
  reports for the drawn panels, incremented by one when that ceiling is odd; it is the
  bound of the specification, taken over those limits. Every panel's axis is then set from
  this one bound: the left spine ends at it, the upper y bound is \<open>1.2\<close> times it and
  the lower y bound \<open>-0.5\<close> times it. In \<^verbatim>\<open>src/utils\<close> no bound is shared: each panel
  has its own bound, the panel's own maximum, incremented by one when its remainder
  modulo 2 is 1, with no ceiling.
\<close>

theorem shared_axis_bound:
  "(used_yvals \<noteq> [] \<longrightarrow>
      shared_axis_new used_yvals =
        Inr (- (5 / 10) * of_int (spec_shared_upper_bound used_yvals),
             spec_shared_upper_bound used_yvals)) \<and>
   (plot_density_new r sorted_keys get_ylim settings read_depths_dict splice_region = Inr (gc, aps) \<longrightarrow>
      length aps = length read_depths_dict \<and>
      (\<forall>ap\<in>set aps.
         ap_axis_upper ap = of_int (spec_shared_upper_bound (map (get_ylim \<circ> ap_panel) aps)) \<and>
         ap_ybound_upper ap =
           12 / 10 * of_int (spec_shared_upper_bound (map (get_ylim \<circ> ap_panel) aps)) \<and>
         ap_ybound_lower ap =
           - (5 / 10) * of_int (spec_shared_upper_bound (map (get_ylim \<circ> ap_panel) aps)))) \<and>
   (plot_density_utils r' settings' read_depths_dict' splice_region' no_bam = Inr (gc', aps') \<longrightarrow>
      length aps' = length read_depths_dict' \<and>
      (\<forall>k<length read_depths_dict'.
         ap_axis_upper (aps' ! k) =
           (if py_mod (rd_max (read_depths_dict' ! k)) 2 = 1
            then rd_max (read_depths_dict' ! k) + 1 else rd_max (read_depths_dict' ! k))))"
proof (intro conjI impI)
  assume "used_yvals \<noteq> []"
  then show "shared_axis_new used_yvals =
        Inr (- (5 / 10) * of_int (spec_shared_upper_bound used_yvals),
             spec_shared_upper_bound used_yvals)"
    by (rule shared_axis_new_spec)
next
  assume run: "plot_density_new r sorted_keys get_ylim settings read_depths_dict splice_region
                 = Inr (gc, aps)"
  obtain g2g plotted_axes axis where
    loop: "py_for (draw_panel_new sorted_keys gc g2g (s_resolution settings) (s_nxticks settings)
                     (length read_depths_dict))
                  (enumerate 0 read_depths_dict) = Inr plotted_axes"
    and ax: "shared_axis_new (map get_ylim plotted_axes) = Inr axis"
    and aps: "aps = map (\<lambda>p. \<lparr>ap_panel = p, ap_ybound_lower = fst axis,
                       ap_ybound_upper = 12 / 10 * of_int (snd axis),
                       ap_axis_upper = of_int (snd axis)\<rparr>) plotted_axes"
    using plot_density_new_panels[OF run] by (elim exE conjE) (rule that)
  have panels: "map (get_ylim \<circ> ap_panel) aps = map get_ylim plotted_axes"
    unfolding aps by (simp add: comp_def)
  have ne: "map get_ylim plotted_axes \<noteq> []"
    using ax by (rule shared_axis_new_nonempty)
  have axis: "axis = (- (5 / 10) * of_int (spec_shared_upper_bound (map get_ylim plotted_axes)),
                      spec_shared_upper_bound (map get_ylim plotted_axes))"
    using ax shared_axis_new_spec[OF ne] by simp
  show "length aps = length read_depths_dict"
    using py_for_nth[OF loop] aps by simp
  show "\<forall>ap\<in>set aps.
         ap_axis_upper ap = of_int (spec_shared_upper_bound (map (get_ylim \<circ> ap_panel) aps)) \<and>
         ap_ybound_upper ap =
           12 / 10 * of_int (spec_shared_upper_bound (map (get_ylim \<circ> ap_panel) aps)) \<and>
         ap_ybound_lower ap =
           - (5 / 10) * of_int (spec_shared_upper_bound (map (get_ylim \<circ> ap_panel) aps))"
    unfolding panels unfolding aps axis by simp
next
  assume run: "plot_density_utils r' settings' read_depths_dict' splice_region' no_bam = Inr (gc', aps')"
  obtain g2g where loop:
    "py_for (draw_panel_utils gc' g2g (s_nxticks settings') no_bam (length read_depths_dict'))
            (enumerate 0 read_depths_dict') = Inr aps'"
    using plot_density_utils_panels[OF run] by (elim exE) (rule that)
  show "length aps' = length read_depths_dict'"
    using py_for_nth[OF loop] by simp
  show "\<forall>k<length read_depths_dict'.
         ap_axis_upper (aps' ! k) =
           (if py_mod (rd_max (read_depths_dict' ! k)) 2 = 1
            then rd_max (read_depths_dict' ! k) + 1 else rd_max (read_depths_dict' ! k))"
  proof (intro allI impI)
    fix k assume k: "k < length read_depths_dict'"
    then have kk: "k < length (enumerate 0 read_depths_dict')" by simp
    have item: "enumerate 0 read_depths_dict' ! k = (k, read_depths_dict' ! k)"
      using k by (simp add: nth_enumerate_eq)
    have "draw_panel_utils gc' g2g (s_nxticks settings') no_bam (length read_depths_dict')
            (k, read_depths_dict' ! k) = Inr (aps' ! k)"
      using py_for_nth[OF loop] kk item by (metis (no_types, lifting))
    then show "ap_axis_upper (aps' ! k) =
           (if py_mod (rd_max (read_depths_dict' ! k)) 2 = 1
            then rd_max (read_depths_dict' ! k) + 1 else rd_max (read_depths_dict' ! k))"
      by (rule draw_panel_utils_axis)
  qed
qed

text \<open>
  \<^verbatim>\<open>plot_density\<close> of \<^verbatim>\<open>src/new_src\<close> evaluated in stages: the scaling, the panel
  loop and the shared axis.
\<close>

lemma plot_density_new_staged:
  assumes a: "plot_density_scaling_new r S R = Inr (gc, g2g)"
    and p: "map_sum id (map gy)
              (py_for (draw_panel_new sk gc g2g (s_resolution S) (s_nxticks S) (length rds))
                 (enumerate 0 rds)) = Inr yvals"
    and x: "shared_axis_new yvals = Inr axis"
  shows "\<exists>aps. plot_density_new r sk gy S rds R = Inr (gc, aps) \<and>
               map (gy \<circ> ap_panel) aps = yvals"
proof -
  obtain plotted where
    q: "py_for (draw_panel_new sk gc g2g (s_resolution S) (s_nxticks S) (length rds))
          (enumerate 0 rds) = Inr plotted"
    and u: "map gy plotted = yvals"
    using map_sum_Inr_obtain[OF p] by (elim exE conjE) (rule that)
  let ?aps = "map (\<lambda>p. \<lparr>ap_panel = p, ap_ybound_lower = fst axis,
                       ap_ybound_upper = 12 / 10 * of_int (snd axis),
                       ap_axis_upper = of_int (snd axis)\<rparr>) plotted"
  have "plot_density_new r sk gy S rds R = Inr (gc, ?aps)"
    unfolding plot_density_new_def
    by (simp only: a q u x py_bind_Inr fst_conv snd_conv)
  moreover have "map (gy \<circ> ap_panel) ?aps = yvals"
    using u by (simp add: comp_def)
  ultimately show ?thesis by (intro exI[of _ ?aps] conjI)
qed

text \<open>
  The scenarios of the claim in \<^verbatim>\<open>src/new_src\<close>: the limits \<open>[3, 7, 10]\<close> give the
  bound 10 and the limits \<open>[3, 5]\<close> give 6. A render of two panels whose limits are 2
  and 3 sets both panels to the bound 4; the same two samples in \<^verbatim>\<open>src/utils\<close>, with
  maxima 3 and 5, get the bounds 4 and 6.
\<close>

theorem shared_axis_bound_witness:
  "[3, 7, 10] \<noteq> ([] :: real list) \<and> shared_axis_new [3, 7, 10] = Inr (- 5, 10) \<and>
   [3, 5] \<noteq> ([] :: real list) \<and> shared_axis_new [3, 5] = Inr (- 3, 6) \<and>
   (\<exists>aps. plot_density_new no_rounding id (\<lambda>p. case p_glyph p of Fill_between xs ys \<Rightarrow> fold max ys 0 | White_point pt \<Rightarrow> snd pt)
             \<lparr>s_intron_scale = 1, s_exon_scale = 1, s_reverse_minus = False, s_resolution = 1 / 2,
               s_nxticks = 4\<rparr>
             [\<lparr>rd_start = 0, rd_wiggle = [1, 3, 2], rd_junctions_dict = [], rd_max = 3\<rparr>,
              \<lparr>rd_start = 0, rd_wiggle = [5, 1, 2], rd_junctions_dict = [], rd_max = 5\<rparr>]
             \<lparr>sr_start = 0, sr_end = 2, sr_strand = ''+'', sr_exon_starts = [], sr_exon_ends = []\<rparr> = Inr ([0, 1, 2], aps) \<and>
          length aps = 2 \<and> list_all (\<lambda>ap. ap_axis_upper ap = 4) aps) \<and>
   (\<exists>aps'. plot_density_utils no_rounding
              \<lparr>s_intron_scale = 1, s_exon_scale = 1, s_reverse_minus = False, s_resolution = 1 / 2,
               s_nxticks = 4\<rparr>
              [\<lparr>rd_start = 0, rd_wiggle = [1, 3, 2], rd_junctions_dict = [], rd_max = 3\<rparr>,
              \<lparr>rd_start = 0, rd_wiggle = [5, 1, 2], rd_junctions_dict = [], rd_max = 5\<rparr>]
              \<lparr>sr_start = 0, sr_end = 2, sr_strand = ''+'', sr_exon_starts = [], sr_exon_ends = []\<rparr> False = Inr ([0, 1, 2], aps') \<and>
           ap_axis_upper (aps' ! 0) = 4 \<and> ap_axis_upper (aps' ! 1) = 6)"
proof -
  let ?S = "\<lparr>s_intron_scale = 1, s_exon_scale = 1, s_reverse_minus = False, s_resolution = 1 / 2,
               s_nxticks = 4\<rparr>"
  let ?rds = "[\<lparr>rd_start = 0, rd_wiggle = [1, 3, 2], rd_junctions_dict = [], rd_max = 3\<rparr>,
              \<lparr>rd_start = 0, rd_wiggle = [5, 1, 2], rd_junctions_dict = [], rd_max = 5\<rparr>]"
  let ?R = "\<lparr>sr_start = 0, sr_end = 2, sr_strand = ''+'', sr_exon_starts = [], sr_exon_ends = []\<rparr>"
  let ?gy = "(\<lambda>p. case p_glyph p of Fill_between xs ys \<Rightarrow> fold max ys 0 | White_point pt \<Rightarrow> snd pt)"
  have a: "[3, 7, 10] \<noteq> ([] :: real list)" and b: "[3, 5] \<noteq> ([] :: real list)" by simp_all
  have sa: "spec_shared_upper_bound [3, 7, 10] = 10" and sb: "spec_shared_upper_bound [3, 5] = 6"
    and sc: "spec_shared_upper_bound [2, 3] = 4"
    by (simp_all add: spec_shared_upper_bound_def)
  have 1: "shared_axis_new [3, 7, 10] = Inr (- 5, 10)"
    using mp[OF conjunct1[OF shared_axis_bound[where used_yvals = "[3, 7, 10]"]] a]
    by (simp add: sa)
  have 2: "shared_axis_new [3, 5] = Inr (- 3, 6)"
    using mp[OF conjunct1[OF shared_axis_bound[where used_yvals = "[3, 5]"]] b]
    by (simp add: sb)
  have 3: "\<exists>aps. plot_density_new no_rounding id ?gy ?S ?rds ?R = Inr ([0, 1, 2], aps) \<and>
          length aps = 2 \<and> list_all (\<lambda>ap. ap_axis_upper ap = 4) aps"
  proof -
    have g: "plot_density_scaling_new no_rounding ?S ?R = Inr ([0, 1, 2], [(0, 0), (1, 1), (2, 2)])"
      by code_simp
    have y: "map_sum id (map ?gy)
              (py_for (draw_panel_new id [0, 1, 2] [(0, 0), (1, 1), (2, 2)] (s_resolution ?S) (s_nxticks ?S) (length ?rds))
                 (enumerate 0 ?rds)) = Inr [2, 3]"
      by code_simp
    have x: "shared_axis_new [2, 3] = Inr (- 2, 4)"
      by code_simp
    obtain aps where run: "plot_density_new no_rounding id ?gy ?S ?rds ?R = Inr ([0, 1, 2], aps)"
      and ys: "map (?gy \<circ> ap_panel) aps = [2, 3]"
      using plot_density_new_staged[OF g y x] by (elim exE conjE) (rule that)
    note t = mp[OF conjunct1[OF conjunct2[OF shared_axis_bound[where sorted_keys = id
        and get_ylim = ?gy and settings = ?S and read_depths_dict = ?rds and splice_region = ?R
        and r = no_rounding and gc = "[0, 1, 2]" and aps = aps]]] run]
    have "length aps = 2" using conjunct1[OF t] by simp
    moreover have "list_all (\<lambda>ap. ap_axis_upper ap = 4) aps"
      using conjunct2[OF t] unfolding ys sc by (simp add: list_all_iff)
    ultimately show ?thesis using run by (intro exI[of _ aps] conjI)
  qed
  have 4: "\<exists>aps'. plot_density_utils no_rounding ?S ?rds ?R False = Inr ([0, 1, 2], aps') \<and>
           ap_axis_upper (aps' ! 0) = 4 \<and> ap_axis_upper (aps' ! 1) = 6"
  proof -
    have g: "plot_density_scaling_utils no_rounding ?S ?R = Inr ([0, 1, 2], [(0, 0), (1, 1), (2, 2)])"
      by code_simp
    have y: "map_sum id (map ap_axis_upper)
      (py_for (draw_panel_utils [0, 1, 2] [(0, 0), (1, 1), (2, 2)] (s_nxticks ?S) False (length ?rds))
        (enumerate 0 ?rds)) = Inr [4, 6]"
      by code_simp
    note st = conjunct2[OF plot_density_utils_staged[OF g y]]
    obtain w where run0: "plot_density_utils no_rounding ?S ?rds ?R False = Inr w"
      and w: "fst w = [0, 1, 2]"
      using map_sum_Inr_obtain[OF st] by (elim exE conjE) (rule that)
    have run: "plot_density_utils no_rounding ?S ?rds ?R False = Inr ([0, 1, 2], snd w)"
      using run0 w by (cases w) simp
    note t = conjunct2[OF mp[OF conjunct2[OF conjunct2[OF shared_axis_bound[where
        settings' = ?S and read_depths_dict' = ?rds and splice_region' = ?R and r' = no_rounding
        and no_bam = False and gc' = "[0, 1, 2]" and aps' = "snd w"]]] run]]
    have "ap_axis_upper (snd w ! 0) = 4"
      using spec[OF t, of 0] by (simp add: py_mod_def)
    moreover have "ap_axis_upper (snd w ! 1) = 6"
      using spec[OF t, of 1] by (simp add: py_mod_def)
    ultimately show ?thesis using run by (intro exI[of _ "snd w"] conjI)
  qed
  show ?thesis using a 1 b 2 3 4 by (intro conjI)
qed

text \<open>
  C7 as it is written fails in \<^verbatim>\<open>src/utils\<close>: for the panel maxima \<open>[3, 5]\<close> the two
  panels get the bounds 4 and 6, not the one bound 6.
\<close>

theorem per_panel_axis_utils_counterexample:
  "map_sum id (map ap_axis_upper \<circ> snd)
     (plot_density_utils no_rounding
        \<lparr>s_intron_scale = 1, s_exon_scale = 1, s_reverse_minus = False, s_resolution = 1 / 2,
               s_nxticks = 4\<rparr>
        [\<lparr>rd_start = 0, rd_wiggle = [1, 3, 2], rd_junctions_dict = [], rd_max = 3\<rparr>,
              \<lparr>rd_start = 0, rd_wiggle = [5, 1, 2], rd_junctions_dict = [], rd_max = 5\<rparr>]
        \<lparr>sr_start = 0, sr_end = 2, sr_strand = ''+'', sr_exon_starts = [], sr_exon_ends = []\<rparr>
        False)
     = Inr [4, 6] \<and>
   map_sum id fst
     (plot_density_utils no_rounding
        \<lparr>s_intron_scale = 1, s_exon_scale = 1, s_reverse_minus = False, s_resolution = 1 / 2,
               s_nxticks = 4\<rparr>
        [\<lparr>rd_start = 0, rd_wiggle = [1, 3, 2], rd_junctions_dict = [], rd_max = 3\<rparr>,
              \<lparr>rd_start = 0, rd_wiggle = [5, 1, 2], rd_junctions_dict = [], rd_max = 5\<rparr>]
        \<lparr>sr_start = 0, sr_end = 2, sr_strand = ''+'', sr_exon_starts = [], sr_exon_ends = []\<rparr>
        False)
     = Inr [0, 1, 2]"
proof (rule plot_density_utils_staged[where g2g = "[(0, 0), (1, 1), (2, 2)]"])
  show "plot_density_scaling_utils no_rounding
        \<lparr>s_intron_scale = 1, s_exon_scale = 1, s_reverse_minus = False, s_resolution = 1 / 2,
               s_nxticks = 4\<rparr>
        \<lparr>sr_start = 0, sr_end = 2, sr_strand = ''+'', sr_exon_starts = [], sr_exon_ends = []\<rparr>
     = Inr ([0, 1, 2], [(0, 0), (1, 1), (2, 2)])"
    by code_simp
  show "map_sum id (map ap_axis_upper)
      (py_for (draw_panel_utils [0, 1, 2] [(0, 0), (1, 1), (2, 2)]
                 (s_nxticks \<lparr>s_intron_scale = 1, s_exon_scale = 1, s_reverse_minus = False, s_resolution = 1 / 2,
               s_nxticks = 4\<rparr>)
                 False
                 (length [\<lparr>rd_start = 0, rd_wiggle = [1, 3, 2], rd_junctions_dict = [], rd_max = 3\<rparr>,
              \<lparr>rd_start = 0, rd_wiggle = [5, 1, 2], rd_junctions_dict = [], rd_max = 5\<rparr>]))
        (enumerate 0 [\<lparr>rd_start = 0, rd_wiggle = [1, 3, 2], rd_junctions_dict = [], rd_max = 3\<rparr>,
              \<lparr>rd_start = 0, rd_wiggle = [5, 1, 2], rd_junctions_dict = [], rd_max = 5\<rparr>])) = Inr [4, 6]"
    by code_simp
qed


end
